theory Spec2Isabelle
  imports Complex_Main
begin

section \<open>Values crossing the route boundary\<close>

text \<open>
  A JavaScript number is a finite value, one of the two infinities, or NaN. Only
  finiteness and sign are observed by the route handler, so the finite values are reals.
\<close>

datatype jsnum = Fin real | PosInf | NegInf | NaN

text \<open>
  The result of \<^verbatim>\<open>request.json()\<close>, and the payload of an event's
  \<^verbatim>\<open>meta\<close>. A property that is absent (\<^verbatim>\<open>undefined\<close>) is
  \<open>None\<close> of an option.
\<close>

datatype json =
    JNull
  | JBool bool
  | JNum jsnum
  | JStr string
  | JArr "json list"
  | JObj "(string \<times> json) list"

text \<open>A thrown value: an \<^verbatim>\<open>Error\<close> with its message, or anything else.\<close>

datatype thrown = ErrorObj string | NonError

section \<open>Run events (status-feed: RunLog)\<close>

datatype status = Progress | Success | Error | Info | Uploading

record RunLog =
  id_str :: string
  status :: status
  title :: string
  detail :: "string option"
  timestamp :: string
  meta :: "(string \<times> json) list option"

section \<open>The async generator protocol\<close>

text \<open>
  The pipeline is consumed through \<^verbatim>\<open>generator.next()\<close>,
  \<^verbatim>\<open>generator.return()\<close> and \<^verbatim>\<open>for await\<close>. A generator is
  the finite trace of what it does when resumed: it yields a value and suspends, it calls
  an external stage and goes on, it returns, or it throws.
\<close>

datatype stage =
  ScriptStage | NarrationStage | FootageStage | RenderStage | PublishStage | NotifyStage

datatype 'a gen =
    Yield 'a "'a gen"
  | Invoke stage "'a gen"
  | Return
  | Throw thrown

datatype 'a iter = Value 'a | Done | Thrown thrown

text \<open>
  One \<^verbatim>\<open>next()\<close>: the stages called before the generator suspends again, the
  iterator result, and the generator afterwards. A generator that returned or threw is
  completed and answers \<open>Done\<close> from then on.
\<close>

fun gnext :: "'a gen \<Rightarrow> stage list \<times> 'a iter \<times> 'a gen" where
  "gnext (Yield v g) = ([], Value v, g)"
| "gnext (Invoke s g) = (case gnext g of (cs, r, g') \<Rightarrow> (s # cs, r, g'))"
| "gnext Return = ([], Done, Return)"
| "gnext (Throw x) = ([], Thrown x, Return)"


text \<open>What a generator would yield and call if it were driven to its end.\<close>

fun yields :: "'a gen \<Rightarrow> 'a list" where
  "yields (Yield v g) = v # yields g"
| "yields (Invoke s g) = yields g"
| "yields Return = []"
| "yields (Throw x) = []"

fun invocations :: "'a gen \<Rightarrow> stage list" where
  "invocations (Yield v g) = invocations g"
| "invocations (Invoke s g) = s # invocations g"
| "invocations Return = []"
| "invocations (Throw x) = []"

fun ending :: "'a gen \<Rightarrow> thrown option" where
  "ending (Yield v g) = ending g"
| "ending (Invoke s g) = ending g"
| "ending Return = None"
| "ending (Throw x) = Some x"

section \<open>Interactive transport: the ReadableStream of POST\<close>

text \<open>
  A yielded value is either falsy (\<open>None\<close>, such as \<^verbatim>\<open>undefined\<close>) or a
  RunLog object, which is always truthy.
\<close>

type_synonym yielded = "RunLog option"

record stream =
  generator :: "yielded gen"
  enqueued :: "string list"
  queue :: "string list"
  delivered :: "string list"
  closed :: bool
  cancelled :: bool
  started :: "stage list"

text \<open>
  \<open>enqueued\<close> is every chunk given to \<^verbatim>\<open>controller.enqueue\<close> so far,
  \<open>queue\<close> the chunks waiting in the stream, \<open>delivered\<close> the chunks the reader has
  received, and \<open>started\<close> the stages the generator has called.
\<close>

definition sse :: "string \<Rightarrow> string" where
  "sse payload = ''data: '' @ payload @ [CHR 0x0A, CHR 0x0A]"

definition done_chunk :: string where
  "done_chunk = sse ''[DONE]''"

definition error_message :: "thrown \<Rightarrow> string \<Rightarrow> string" where
  "error_message x fallback = (case x of ErrorObj m \<Rightarrow> m | NonError \<Rightarrow> fallback)"

definition fatal_event :: "string \<Rightarrow> string \<Rightarrow> thrown \<Rightarrow> RunLog" where
  "fatal_event uuid now x =
     \<lparr> id_str = uuid, status = Error, title = ''Fatal'',
       detail = Some (error_message x ''Unknown failure''),
       timestamp = now, meta = None \<rparr>"

definition enqueue :: "string \<Rightarrow> stream \<Rightarrow> stream" where
  "enqueue chunk s = s\<lparr> enqueued := enqueued s @ [chunk], queue := queue s @ [chunk] \<rparr>"

text \<open>
  \<^verbatim>\<open>pull(controller)\<close>. \<open>stringify\<close> is \<^verbatim>\<open>JSON.stringify\<close>,
  \<open>uuid\<close> and \<open>now\<close> are what \<^verbatim>\<open>randomUUID()\<close> and
  \<^verbatim>\<open>new Date().toISOString()\<close> give inside the catch block.
\<close>

definition pull :: "(RunLog \<Rightarrow> string) \<Rightarrow> string \<Rightarrow> string \<Rightarrow> stream \<Rightarrow> stream" where
  "pull stringify uuid now s =
     (case gnext (generator s) of (cs, r, g') \<Rightarrow>
        (case r of
           Done \<Rightarrow>
             (enqueue done_chunk (s\<lparr> generator := g', started := started s @ cs \<rparr>))
               \<lparr> closed := True \<rparr>
         | Value v \<Rightarrow>
             (case v of
                Some e \<Rightarrow>
                  enqueue (sse (stringify e)) (s\<lparr> generator := g', started := started s @ cs \<rparr>)
              | None \<Rightarrow> s\<lparr> generator := g', started := started s @ cs \<rparr>)
         | Thrown x \<Rightarrow>
             (enqueue (sse (stringify (fatal_event uuid now x)))
                (s\<lparr> generator := g', started := started s @ cs \<rparr>))
               \<lparr> closed := True \<rparr>))"


text \<open>
  The platform's side of a \<^verbatim>\<open>ReadableStream\<close> with the default high water mark
  of one chunk, each \<open>pull\<close> running to its end before the next step. The stream asks
  for a chunk whenever none is waiting: once when it is constructed, before any reader
  exists, and after every chunk handed to the reader.
\<close>

definition fresh_stream :: "yielded gen \<Rightarrow> stream" where
  "fresh_stream g =
     \<lparr> generator = g, enqueued = [], queue = [], delivered = [], closed = False,
       cancelled = False, started = [] \<rparr>"

definition pull_if_needed ::
  "(RunLog \<Rightarrow> string) \<Rightarrow> string \<Rightarrow> string \<Rightarrow> stream \<Rightarrow> stream" where
  "pull_if_needed stringify uuid now s =
     (if closed s \<or> cancelled s \<or> queue s \<noteq> [] then s else pull stringify uuid now s)"

definition open_stream ::
  "(RunLog \<Rightarrow> string) \<Rightarrow> string \<Rightarrow> string \<Rightarrow> yielded gen \<Rightarrow> stream" where
  "open_stream stringify uuid now g = pull_if_needed stringify uuid now (fresh_stream g)"

definition hand_over :: "stream \<Rightarrow> stream" where
  "hand_over s =
     (case queue s of
        [] \<Rightarrow> s
      | c # q \<Rightarrow> s\<lparr> queue := q, delivered := delivered s @ [c] \<rparr>)"

text \<open>
  One \<^verbatim>\<open>reader.read()\<close>: a waiting chunk is handed over and the stream pulls
  ahead; with nothing waiting the read makes the stream pull, and a chunk that pull
  enqueues goes to the reader.
\<close>

definition read_chunk ::
  "(RunLog \<Rightarrow> string) \<Rightarrow> string \<Rightarrow> string \<Rightarrow> stream \<Rightarrow> stream" where
  "read_chunk stringify uuid now s =
     (if cancelled s then s
      else if queue s \<noteq> [] then pull_if_needed stringify uuid now (hand_over s)
      else if closed s then s
      else
        (let s' = pull stringify uuid now s
         in if queue s' = [] then s' else pull_if_needed stringify uuid now (hand_over s')))"

text \<open>\<open>drain n\<close> is a reader that reads \<open>n\<close> times.\<close>

fun drain :: "(RunLog \<Rightarrow> string) \<Rightarrow> string \<Rightarrow> string \<Rightarrow> nat \<Rightarrow> stream \<Rightarrow> stream" where
  "drain stringify uuid now 0 s = s"
| "drain stringify uuid now (Suc n) s =
     drain stringify uuid now n (read_chunk stringify uuid now s)"

text \<open>The events among the yielded values, and their messages on the wire.\<close>

definition truthy :: "'a option list \<Rightarrow> 'a list" where
  "truthy vs = List.map_filter (\<lambda>v. v) vs"

definition messages :: "(RunLog \<Rightarrow> string) \<Rightarrow> yielded list \<Rightarrow> string list" where
  "messages stringify vs = map (\<lambda>e. sse (stringify e)) (truthy vs)"


section \<open>Request coercion (route: tr, coerceNumber, coerceBody)\<close>

text \<open>
  A string is the list of its UTF-8 bytes. \<^verbatim>\<open>String.prototype.trim\<close> removes
  from both ends every white space character and line terminator of the language: TAB,
  LF, VT, FF, CR, SP, U+00A0, U+1680, U+2000 to U+200A, U+2028, U+2029, U+202F, U+205F,
  U+3000 and U+FEFF, listed here by their encodings.
\<close>

definition white_space :: "string list" where
  "white_space =
     [[CHR 0x09], [CHR 0x0A], [CHR 0x0B], [CHR 0x0C], [CHR 0x0D], [CHR 0x20],
      [CHR 0xC2, CHR 0xA0], [CHR 0xE1, CHR 0x9A, CHR 0x80],
      [CHR 0xE2, CHR 0x80, CHR 0x80], [CHR 0xE2, CHR 0x80, CHR 0x81],
      [CHR 0xE2, CHR 0x80, CHR 0x82], [CHR 0xE2, CHR 0x80, CHR 0x83],
      [CHR 0xE2, CHR 0x80, CHR 0x84], [CHR 0xE2, CHR 0x80, CHR 0x85],
      [CHR 0xE2, CHR 0x80, CHR 0x86], [CHR 0xE2, CHR 0x80, CHR 0x87],
      [CHR 0xE2, CHR 0x80, CHR 0x88], [CHR 0xE2, CHR 0x80, CHR 0x89],
      [CHR 0xE2, CHR 0x80, CHR 0x8A], [CHR 0xE2, CHR 0x80, CHR 0xA8],
      [CHR 0xE2, CHR 0x80, CHR 0xA9], [CHR 0xE2, CHR 0x80, CHR 0xAF],
      [CHR 0xE2, CHR 0x81, CHR 0x9F], [CHR 0xE3, CHR 0x80, CHR 0x80],
      [CHR 0xEF, CHR 0xBB, CHR 0xBF]]"

definition leading :: "string list \<Rightarrow> string \<Rightarrow> string option" where
  "leading pats s = find (\<lambda>w. w \<noteq> [] \<and> take (length w) s = w) pats"

function strip :: "string list \<Rightarrow> string \<Rightarrow> string" where
  "strip pats s =
     (case leading pats s of
        None \<Rightarrow> s
      | Some w \<Rightarrow> strip pats (drop (length w) s))"
  by pat_completeness auto
termination
proof (relation "measure (\<lambda>(pats, s). length s)")
  show "wf (measure (\<lambda>(pats, s). length s))" by simp
next
  fix pats :: "string list" and s w :: string
  assume "leading pats s = Some w"
  then have w: "w \<noteq> []" "take (length w) s = w"
    by (auto simp: leading_def find_Some_iff)
  then have "s \<noteq> []" by auto
  then show "((pats, drop (length w) s), (pats, s)) \<in> measure (\<lambda>(pats, s). length s)"
    using w(1) by simp
qed

declare strip.simps [simp del]

definition trim :: "string \<Rightarrow> string" where
  "trim s = rev (strip (map rev white_space) (rev (strip white_space s)))"

text \<open>The first and the last bytes of the white space encodings.\<close>

definition ws_first :: "char list" where
  "ws_first = map hd white_space"

definition ws_last :: "char list" where
  "ws_last = map last white_space"

text \<open>
  \<^verbatim>\<open>body?.key\<close>: only an object has the properties the handler reads. An
  object lists each of its keys once, as \<^verbatim>\<open>JSON.parse\<close> leaves it.
\<close>

definition get_prop :: "json \<Rightarrow> string \<Rightarrow> json option" where
  "get_prop body k = (case body of JObj kvs \<Rightarrow> map_of kvs k | _ \<Rightarrow> None)"

definition tr :: "json option \<Rightarrow> string option" where
  "tr v =
     (case v of
        Some (JStr s) \<Rightarrow> (let trimmed = trim s in if length trimmed > 0 then Some trimmed else None)
      | _ \<Rightarrow> None)"

definition isFinite :: "jsnum \<Rightarrow> bool" where
  "isFinite n = (case n of Fin r \<Rightarrow> True | _ \<Rightarrow> False)"

definition gt0 :: "jsnum \<Rightarrow> bool" where
  "gt0 n = (case n of Fin r \<Rightarrow> 0 < r | PosInf \<Rightarrow> True | _ \<Rightarrow> False)"

text \<open>
  \<open>toNumber\<close> is \<^verbatim>\<open>Number(input)\<close> on a string; \<open>numeric_input\<close> is
  the \<^verbatim>\<open>value\<close> that \<^verbatim>\<open>coerceNumber\<close> computes first.
\<close>

definition numeric_input :: "(string \<Rightarrow> jsnum) \<Rightarrow> json option \<Rightarrow> jsnum" where
  "numeric_input toNumber input =
     (case input of
        Some (JNum n) \<Rightarrow> n
      | Some (JStr s) \<Rightarrow> toNumber s
      | _ \<Rightarrow> NaN)"

definition coerceNumber :: "(string \<Rightarrow> jsnum) \<Rightarrow> json option \<Rightarrow> jsnum \<Rightarrow> jsnum" where
  "coerceNumber toNumber input fallback =
     (let v = numeric_input toNumber input
      in if isFinite v \<and> gt0 v then v else fallback)"

text \<open>\<^verbatim>\<open>Boolean(value)\<close>.\<close>

definition to_boolean :: "json option \<Rightarrow> bool" where
  "to_boolean v =
     (case v of
        None \<Rightarrow> False
      | Some JNull \<Rightarrow> False
      | Some (JBool b) \<Rightarrow> b
      | Some (JNum n) \<Rightarrow> (case n of Fin r \<Rightarrow> r \<noteq> 0 | NaN \<Rightarrow> False | _ \<Rightarrow> True)
      | Some (JStr s) \<Rightarrow> s \<noteq> []
      | Some (JArr xs) \<Rightarrow> True
      | Some (JObj kvs) \<Rightarrow> True)"

text \<open>\<^verbatim>\<open>s.split(",")\<close>: every separator ends a piece.\<close>

fun split_char :: "char \<Rightarrow> string \<Rightarrow> string list" where
  "split_char c [] = [[]]"
| "split_char c (x # xs) =
     (if x = c then [] # split_char c xs
      else (case split_char c xs of p # ps \<Rightarrow> (x # p) # ps | [] \<Rightarrow> [[x]]))"

text \<open>\<^verbatim>\<open>s.split(/[,\n]+/)\<close>: a maximal run of commas and newlines ends a piece.\<close>

definition is_delim :: "char \<Rightarrow> bool" where
  "is_delim c = (c = CHR '','' \<or> c = CHR 0x0A)"

function split_delims :: "string \<Rightarrow> string list" where
  "split_delims [] = [[]]"
| "split_delims (x # xs) =
     (if is_delim x then [] # split_delims (dropWhile is_delim xs)
      else (case split_delims xs of p # ps \<Rightarrow> (x # p) # ps | [] \<Rightarrow> [[x]]))"
  by pat_completeness auto
termination
  by (relation "measure length") (auto simp: less_Suc_eq_le length_dropWhile_le)

text \<open>
  The object literal both construction paths hand to the schema. An
  \<^verbatim>\<open>undefined\<close> credential is \<open>None\<close>.
\<close>

record raw_request =
  openaiKey :: "string option"
  elevenLabsKey :: "string option"
  pexelsKey :: "string option"
  youtubeClientId :: "string option"
  youtubeClientSecret :: "string option"
  youtubeRefreshToken :: "string option"
  voiceId :: string
  videoTopic :: string
  targetDurationSeconds :: jsnum
  uploadTitleTemplate :: string
  uploadDescriptionTemplate :: string
  uploadTags :: "json list"
  visibility :: string
  allowCopyrightAudio :: bool
  preset :: string
  webhookUrl :: string
  runContext :: string
  extraInstructions :: string

definition or_else :: "'a option \<Rightarrow> 'a \<Rightarrow> 'a" where
  "or_else v d = (case v of Some x \<Rightarrow> x | None \<Rightarrow> d)"

definition coerceBody :: "(string \<Rightarrow> jsnum) \<Rightarrow> json \<Rightarrow> raw_request" where
  "coerceBody toNumber body =
     (let tags = (case get_prop body ''uploadTags'' of
                    Some (JArr xs) \<Rightarrow> xs
                  | Some (JStr s) \<Rightarrow> map (\<lambda>tag. JStr (trim tag)) (split_delims s)
                  | _ \<Rightarrow> [])
      in \<lparr> openaiKey = tr (get_prop body ''openaiKey''),
           elevenLabsKey = tr (get_prop body ''elevenLabsKey''),
           pexelsKey = tr (get_prop body ''pexelsKey''),
           youtubeClientId = tr (get_prop body ''youtubeClientId''),
           youtubeClientSecret = tr (get_prop body ''youtubeClientSecret''),
           youtubeRefreshToken = tr (get_prop body ''youtubeRefreshToken''),
           voiceId = or_else (tr (get_prop body ''voiceId'')) ''21m00Tcm4TlvDq8ikWAM'',
           videoTopic = or_else (tr (get_prop body ''videoTopic'')) ''Daily AI news round-up'',
           targetDurationSeconds =
             coerceNumber toNumber (get_prop body ''targetDurationSeconds'') (Fin 120),
           uploadTitleTemplate =
             or_else (tr (get_prop body ''uploadTitleTemplate'')) ''Daily AI Highlights - {{date}}'',
           uploadDescriptionTemplate =
             or_else (tr (get_prop body ''uploadDescriptionTemplate''))
               ''Automated AI news for {{date}}.'',
           uploadTags = tags,
           visibility =
             (if tr (get_prop body ''visibility'') = Some ''private'' \<or>
                 tr (get_prop body ''visibility'') = Some ''public'' \<or>
                 tr (get_prop body ''visibility'') = Some ''unlisted''
              then or_else (tr (get_prop body ''visibility'')) ''unlisted''
              else ''unlisted''),
           allowCopyrightAudio = to_boolean (get_prop body ''allowCopyrightAudio''),
           preset =
             (if tr (get_prop body ''preset'') = Some ''facts'' \<or>
                 tr (get_prop body ''preset'') = Some ''longform''
              then or_else (tr (get_prop body ''preset'')) ''news''
              else ''news''),
           webhookUrl = or_else (tr (get_prop body ''webhookUrl'')) [],
           runContext = or_else (tr (get_prop body ''runContext'')) [],
           extraInstructions = or_else (tr (get_prop body ''extraInstructions'')) [] \<rparr>)"

section \<open>Environment defaults (route: deriveFromEnv)\<close>

text \<open>
  \<open>env\<close> is \<^verbatim>\<open>process.env\<close>; \<open>schema\<close> is
  \<^verbatim>\<open>pipelineRequestSchema\<close>, whose \<^verbatim>\<open>parse\<close> throws the issues that
  \<^verbatim>\<open>safeParse\<close> returns.
\<close>

definition env_object :: "(string \<Rightarrow> jsnum) \<Rightarrow> (string \<Rightarrow> string option) \<Rightarrow> raw_request" where
  "env_object toNumber env =
     (let tags = (case env ''PIPELINE_UPLOAD_TAGS'' of
                    Some s \<Rightarrow> filter (\<lambda>tag. tag \<noteq> []) (map trim (split_char CHR '','' s))
                  | None \<Rightarrow> [])
      in \<lparr> openaiKey = env ''OPENAI_API_KEY'',
           elevenLabsKey = env ''ELEVENLABS_API_KEY'',
           pexelsKey = env ''PEXELS_API_KEY'',
           youtubeClientId = env ''YOUTUBE_CLIENT_ID'',
           youtubeClientSecret = env ''YOUTUBE_CLIENT_SECRET'',
           youtubeRefreshToken = env ''YOUTUBE_REFRESH_TOKEN'',
           voiceId = or_else (env ''PIPELINE_VOICE_ID'') ''21m00Tcm4TlvDq8ikWAM'',
           videoTopic = or_else (env ''PIPELINE_DEFAULT_TOPIC'') ''Daily AI news recap'',
           targetDurationSeconds =
             coerceNumber toNumber (map_option JStr (env ''PIPELINE_TARGET_DURATION'')) (Fin 120),
           uploadTitleTemplate =
             or_else (env ''PIPELINE_UPLOAD_TITLE_TEMPLATE'') ''Daily AI Briefing - {{date}}'',
           uploadDescriptionTemplate =
             or_else (env ''PIPELINE_UPLOAD_DESCRIPTION_TEMPLATE'')
               ''Automated summary for {{date}}.'',
           uploadTags = map JStr tags,
           visibility = or_else (env ''PIPELINE_UPLOAD_VISIBILITY'') ''unlisted'',
           allowCopyrightAudio = (env ''PIPELINE_ALLOW_COPY_AUDIO'' = Some ''true''),
           preset = or_else (env ''PIPELINE_PRESET'') ''news'',
           webhookUrl = or_else (env ''PIPELINE_WEBHOOK_URL'') [],
           runContext = or_else (env ''PIPELINE_RUN_CONTEXT'') [],
           extraInstructions = or_else (env ''PIPELINE_EXTRA_INSTRUCTIONS'') [] \<rparr>)"

definition deriveFromEnv ::
  "(raw_request \<Rightarrow> 'i + 'c) \<Rightarrow> (string \<Rightarrow> jsnum) \<Rightarrow> (string \<Rightarrow> string option) \<Rightarrow> 'i + 'c" where
  "deriveFromEnv schema toNumber env = schema (env_object toNumber env)"

section \<open>The two handlers (route: POST, GET)\<close>

text \<open>\<^verbatim>\<open>ZodError.flatten()\<close>: messages without a path, and messages by field.\<close>

record issue =
  path :: "string list"
  message :: string

record flattened =
  formErrors :: "string list"
  fieldErrors :: "(string \<times> string list) list"

definition flatten :: "issue list \<Rightarrow> flattened" where
  "flatten issues =
     \<lparr> formErrors = map message (filter (\<lambda>i. path i = []) issues),
       fieldErrors =
         map (\<lambda>k. (k, map message (filter (\<lambda>i. path i \<noteq> [] \<and> hd (path i) = k) issues)))
           (remdups (map (\<lambda>i. hd (path i)) (filter (\<lambda>i. path i \<noteq> []) issues))) \<rparr>"

datatype body =
    InvalidPayload string flattened
  | MessageOnly string
  | RunReport bool "string option" "yielded list"

datatype response = JsonResponse nat body | EventStream stream

text \<open>
  \<open>request_json\<close> is the outcome of \<^verbatim>\<open>await request.json()\<close>. Constructing
  the stream already makes its first pull, so the platform functions of \<open>pull\<close> are
  arguments of the handler.
\<close>

definition POST ::
  "(raw_request \<Rightarrow> issue list + 'c) \<Rightarrow> ('c \<Rightarrow> yielded gen) \<Rightarrow> (string \<Rightarrow> jsnum) \<Rightarrow>
   (RunLog \<Rightarrow> string) \<Rightarrow> string \<Rightarrow> string \<Rightarrow> thrown + json \<Rightarrow> response" where
  "POST schema pipeline toNumber stringify uuid now request_json =
     (case request_json of
        Inl x \<Rightarrow>
          JsonResponse 500 (MessageOnly (error_message x ''Unable to start automation pipeline''))
      | Inr js \<Rightarrow>
          (let coerced = coerceBody toNumber js;
               parsed = schema coerced
           in case parsed of
                Inl err \<Rightarrow> JsonResponse 422 (InvalidPayload ''Invalid payload'' (flatten err))
              | Inr data \<Rightarrow> EventStream (open_stream stringify uuid now (pipeline data))))"

text \<open>
  \<^verbatim>\<open>for await (const event of generator) events.push(event)\<close>: the events pushed,
  and what the loop threw, if it did.
\<close>

fun for_await :: "'a gen \<Rightarrow> 'a list \<Rightarrow> 'a list \<times> thrown option" where
  "for_await (Yield v g) events = for_await g (events @ [v])"
| "for_await (Invoke s g) events = for_await g events"
| "for_await Return events = (events, None)"
| "for_await (Throw x) events = (events, Some x)"

text \<open>
  \<open>deriveFromEnv\<close> runs outside the \<^verbatim>\<open>try\<close>: a rejected environment leaves
  the handler with the schema's exception (\<open>Inl\<close>).
\<close>

definition GET ::
  "(raw_request \<Rightarrow> 'i + 'c) \<Rightarrow> ('c \<Rightarrow> yielded gen) \<Rightarrow> (string \<Rightarrow> jsnum) \<Rightarrow>
   (string \<Rightarrow> string option) \<Rightarrow> 'i + response" where
  "GET schema pipeline toNumber env =
     (case deriveFromEnv schema toNumber env of
        Inl err \<Rightarrow> Inl err
      | Inr defaults \<Rightarrow>
          (let generator = pipeline defaults
           in case for_await generator [] of
                (events, Some x) \<Rightarrow>
                  Inr (JsonResponse 500
                         (RunReport False
                            (Some (error_message x ''Pipeline failed during cron execution''))
                            events))
              | (events, None) \<Rightarrow> Inr (JsonResponse 200 (RunReport True None events))))"


section \<open>The validated run configuration and the shared schema\<close>

text \<open>
  Modelled from the spec: the type \<^verbatim>\<open>PipelineRunRequest\<close> that the schema of
  module lib/schema infers is not among the sources. Its fields are those of the object
  the handlers build, all present.
\<close>

record RunConfig =
  cfg_openaiKey :: string
  cfg_elevenLabsKey :: string
  cfg_pexelsKey :: string
  cfg_youtubeClientId :: string
  cfg_youtubeClientSecret :: string
  cfg_youtubeRefreshToken :: string
  cfg_voiceId :: string
  cfg_videoTopic :: string
  cfg_targetDurationSeconds :: real
  cfg_uploadTitleTemplate :: string
  cfg_uploadDescriptionTemplate :: string
  cfg_uploadTags :: "string list"
  cfg_visibility :: string
  cfg_allowCopyrightAudio :: bool
  cfg_preset :: string
  cfg_webhookUrl :: string
  cfg_runContext :: string
  cfg_extraInstructions :: string

definition visibilities :: "string list" where
  "visibilities = [''public'', ''unlisted'', ''private'']"

definition presets :: "string list" where
  "presets = [''news'', ''facts'', ''longform'']"

definition field_issue :: "string \<Rightarrow> string \<Rightarrow> issue" where
  "field_issue k m = \<lparr> path = [k], message = m \<rparr>"

definition required :: "string \<Rightarrow> string option \<Rightarrow> issue list" where
  "required k v = (case v of None \<Rightarrow> [field_issue k ''Required''] | Some x \<Rightarrow> [])"

definition is_string :: "json \<Rightarrow> bool" where
  "is_string j = (case j of JStr s \<Rightarrow> True | _ \<Rightarrow> False)"

definition string_of :: "json \<Rightarrow> string" where
  "string_of j = (case j of JStr s \<Rightarrow> s | _ \<Rightarrow> [])"

definition number_of :: "jsnum \<Rightarrow> real" where
  "number_of n = (case n of Fin r \<Rightarrow> r | _ \<Rightarrow> 0)"

text \<open>
  Modelled from the spec: \<^verbatim>\<open>pipelineRequestSchema\<close> (module lib/schema) is not
  among the sources. The spec's RunConfig has a target duration in seconds greater than
  zero, a preset and a visibility from closed enumerations, a tag list, and the credential
  set of each downstream service; no field is null or undefined when the Conductor runs.
  The three field checks on duration, visibility and preset come first on their own.
\<close>

definition duration_issues :: "raw_request \<Rightarrow> issue list" where
  "duration_issues r =
     (if isFinite (targetDurationSeconds r) \<and> gt0 (targetDurationSeconds r) then []
      else [field_issue ''targetDurationSeconds'' ''Must be greater than 0''])"

definition visibility_issues :: "raw_request \<Rightarrow> issue list" where
  "visibility_issues r =
     (if visibility r \<in> set visibilities then []
      else [field_issue ''visibility'' ''Invalid enum value''])"

definition preset_issues :: "raw_request \<Rightarrow> issue list" where
  "preset_issues r =
     (if preset r \<in> set presets then []
      else [field_issue ''preset'' ''Invalid enum value''])"

definition schema_issues :: "raw_request \<Rightarrow> issue list" where
  "schema_issues r =
     required ''openaiKey'' (openaiKey r) @
     required ''elevenLabsKey'' (elevenLabsKey r) @
     required ''pexelsKey'' (pexelsKey r) @
     required ''youtubeClientId'' (youtubeClientId r) @
     required ''youtubeClientSecret'' (youtubeClientSecret r) @
     required ''youtubeRefreshToken'' (youtubeRefreshToken r) @
     duration_issues r @
     (if list_all is_string (uploadTags r) then []
      else [field_issue ''uploadTags'' ''Expected string'']) @
     visibility_issues r @
     preset_issues r"

text \<open>
  Modelled from the spec: the schema itself. A request without issues is accepted and its
  fields are the RunConfig; otherwise the issues are the error.
\<close>

definition pipelineRequestSchema :: "raw_request \<Rightarrow> issue list + RunConfig" where
  "pipelineRequestSchema r =
     (case schema_issues r of
        [] \<Rightarrow>
          Inr \<lparr> cfg_openaiKey = or_else (openaiKey r) [],
                cfg_elevenLabsKey = or_else (elevenLabsKey r) [],
                cfg_pexelsKey = or_else (pexelsKey r) [],
                cfg_youtubeClientId = or_else (youtubeClientId r) [],
                cfg_youtubeClientSecret = or_else (youtubeClientSecret r) [],
                cfg_youtubeRefreshToken = or_else (youtubeRefreshToken r) [],
                cfg_voiceId = voiceId r,
                cfg_videoTopic = videoTopic r,
                cfg_targetDurationSeconds = number_of (targetDurationSeconds r),
                cfg_uploadTitleTemplate = uploadTitleTemplate r,
                cfg_uploadDescriptionTemplate = uploadDescriptionTemplate r,
                cfg_uploadTags = map string_of (uploadTags r),
                cfg_visibility = visibility r,
                cfg_allowCopyrightAudio = allowCopyrightAudio r,
                cfg_preset = preset r,
                cfg_webhookUrl = webhookUrl r,
                cfg_runContext = runContext r,
                cfg_extraInstructions = extraInstructions r \<rparr>
      | i # is \<Rightarrow> Inl (i # is))"

section \<open>Template expansion\<close>




text \<open>
  Modelled from the spec: the run's current date. The clock is the number of milliseconds
  since 1970-01-01 UTC, as \<^verbatim>\<open>Date.now()\<close> gives it; the date is the calendar day
  of that instant in the proleptic Gregorian calendar, written year-month-day with four
  and two decimal digits, as the date part of \<^verbatim>\<open>toISOString()\<close>.
\<close>

definition digit :: "nat \<Rightarrow> char" where
  "digit d = ''0123456789'' ! (d mod 10)"

function decimal :: "nat \<Rightarrow> string" where
  "decimal n = (if n < 10 then [digit n] else decimal (n div 10) @ [digit n])"
  by pat_completeness auto
termination
  by (relation "measure (\<lambda>n. n)") auto

declare decimal.simps [simp del]






section \<open>The Pipeline Conductor\<close>

text \<open>
  Modelled from the spec: the artifact types, the failure taxonomy and the stage
  contracts of module lib/pipeline, which is not among the sources, as the spec's data
  model and component design give them. A stage receives the configuration and the
  artifacts its contract names, and returns its artifact or a failure.
\<close>

record Script =
  segments :: "(string \<times> real) list"

record Narration =
  audio :: string
  narration_seconds :: real

record FootageSet =
  clips :: "(string \<times> real \<times> nat) list"

record RenderedVideo =
  media :: string
  render_seconds :: real

record PublishResult =
  video_id :: string
  video_url :: string
  applied_visibility :: string
  final_title :: string
  final_description :: string

datatype failure_kind =
    GenerationFailure | SynthesisFailure | SourcingFailure | RenderFailure
  | AuthFailure | QuotaFailure | UploadFailure | NotifyFailure

record failure =
  kind :: failure_kind
  reason :: string

text \<open>The stage adapters wrap external services; the Conductor takes them as given.\<close>

record stages =
  script_stage :: "RunConfig \<Rightarrow> failure + Script"
  narration_stage :: "RunConfig \<Rightarrow> Script \<Rightarrow> failure + Narration"
  footage_stage :: "RunConfig \<Rightarrow> Script \<Rightarrow> failure + FootageSet"
  render_stage :: "RunConfig \<Rightarrow> Narration \<Rightarrow> FootageSet \<Rightarrow> failure + RenderedVideo"
  publish_stage :: "RunConfig \<Rightarrow> RenderedVideo \<Rightarrow> failure + PublishResult"
  notify_stage :: "RunConfig \<Rightarrow> PublishResult \<Rightarrow> failure + unit"

text \<open>Identifier and timestamp of the \<open>k\<close>-th event of a run.\<close>

record stamps =
  event_id :: "nat \<Rightarrow> string"
  event_time :: "nat \<Rightarrow> string"

fun stage_name :: "stage \<Rightarrow> string" where
  "stage_name ScriptStage = ''Script''"
| "stage_name NarrationStage = ''Narration''"
| "stage_name FootageStage = ''Footage''"
| "stage_name RenderStage = ''Render''"
| "stage_name PublishStage = ''Publish''"
| "stage_name NotifyStage = ''Notify''"

fun kind_name :: "failure_kind \<Rightarrow> string" where
  "kind_name GenerationFailure = ''GenerationFailure''"
| "kind_name SynthesisFailure = ''SynthesisFailure''"
| "kind_name SourcingFailure = ''SourcingFailure''"
| "kind_name RenderFailure = ''RenderFailure''"
| "kind_name AuthFailure = ''AuthFailure''"
| "kind_name QuotaFailure = ''QuotaFailure''"
| "kind_name UploadFailure = ''UploadFailure''"
| "kind_name NotifyFailure = ''NotifyFailure''"

definition event ::
  "stamps \<Rightarrow> nat \<Rightarrow> status \<Rightarrow> string \<Rightarrow> string option \<Rightarrow> (string \<times> json) list option \<Rightarrow>
   yielded" where
  "event sp k st ttl det m =
     Some \<lparr> id_str = event_id sp k, status = st, title = ttl, detail = det,
            timestamp = event_time sp k, meta = m \<rparr>"

definition stage_error :: "stamps \<Rightarrow> nat \<Rightarrow> stage \<Rightarrow> failure \<Rightarrow> yielded" where
  "stage_error sp k s f =
     event sp k Error (stage_name s) (Some (reason f))
       (Some [(''stage'', JStr (stage_name s)), (''failure'', JStr (kind_name (kind f)))])"

definition publish_meta :: "PublishResult \<Rightarrow> (string \<times> json) list" where
  "publish_meta pr =
     [(''videoId'', JStr (video_id pr)), (''url'', JStr (video_url pr)),
      (''visibility'', JStr (applied_visibility pr)), (''title'', JStr (final_title pr)),
      (''description'', JStr (final_description pr))]"

text \<open>
  Modelled from the spec: \<^verbatim>\<open>createPipeline\<close> (module lib/pipeline) is not among
  the sources. The spec's Conductor runs Script, Narration, Footage, Render, Publish and
  Notify in this order. It names each stage in an event before calling it (\<open>info\<close>, and
  \<open>uploading\<close> for Publish, as in the spec's end-to-end scenarios), reports an artifact
  in a \<open>progress\<close> event, and ends the sequence with one \<open>error\<close> event when a
  stage up to Publish fails. The spec has the unattended entry point answer such a run with
  \<open>ok: false\<close> and a server error, which the GET handler does only in its catch block:
  after its terminal error event the failed run throws the failure. An empty webhook URL
  makes Notify a no-op; a failed Notify adds an \<open>error\<close> event and the run still ends
  with \<open>success\<close>, which carries the PublishResult in its metadata.
\<close>

definition halt :: "stamps \<Rightarrow> nat \<Rightarrow> stage \<Rightarrow> failure \<Rightarrow> yielded gen" where
  "halt sp k s f = Yield (stage_error sp k s f) (Throw (ErrorObj (reason f)))"

definition finish :: "stamps \<Rightarrow> nat \<Rightarrow> PublishResult \<Rightarrow> yielded gen" where
  "finish sp k pr =
     Yield (event sp k Success ''Published'' (Some (video_url pr)) (Some (publish_meta pr)))
       Return"

definition notify_phase ::
  "stages \<Rightarrow> stamps \<Rightarrow> RunConfig \<Rightarrow> nat \<Rightarrow> PublishResult \<Rightarrow> yielded gen" where
  "notify_phase st sp cfg k pr =
     (if cfg_webhookUrl cfg = [] then finish sp k pr
      else
        Yield (event sp k Info (stage_name NotifyStage) None None)
          (Invoke NotifyStage
             (case notify_stage st cfg pr of
                Inl f \<Rightarrow> Yield (stage_error sp (k + 1) NotifyStage f) (finish sp (k + 2) pr)
              | Inr u \<Rightarrow>
                  Yield (event sp (k + 1) Progress (stage_name NotifyStage) None None)
                    (finish sp (k + 2) pr))))"

definition publish_phase ::
  "stages \<Rightarrow> stamps \<Rightarrow> RunConfig \<Rightarrow> nat \<Rightarrow> RenderedVideo \<Rightarrow> yielded gen" where
  "publish_phase st sp cfg k video =
     Yield (event sp k Uploading (stage_name PublishStage) None None)
       (Invoke PublishStage
          (case publish_stage st cfg video of
             Inl f \<Rightarrow> halt sp (k + 1) PublishStage f
           | Inr pr \<Rightarrow> notify_phase st sp cfg (k + 1) pr))"

definition render_phase ::
  "stages \<Rightarrow> stamps \<Rightarrow> RunConfig \<Rightarrow> nat \<Rightarrow> Narration \<Rightarrow> FootageSet \<Rightarrow> yielded gen" where
  "render_phase st sp cfg k narration footage =
     Yield (event sp k Info (stage_name RenderStage) None None)
       (Invoke RenderStage
          (case render_stage st cfg narration footage of
             Inl f \<Rightarrow> halt sp (k + 1) RenderStage f
           | Inr video \<Rightarrow>
               Yield (event sp (k + 1) Progress (stage_name RenderStage) None
                        (Some [(''duration'', JNum (Fin (render_seconds video)))]))
                 (publish_phase st sp cfg (k + 2) video)))"

definition footage_phase ::
  "stages \<Rightarrow> stamps \<Rightarrow> RunConfig \<Rightarrow> nat \<Rightarrow> Script \<Rightarrow> Narration \<Rightarrow> yielded gen" where
  "footage_phase st sp cfg k script narration =
     Yield (event sp k Info (stage_name FootageStage) None None)
       (Invoke FootageStage
          (case footage_stage st cfg script of
             Inl f \<Rightarrow> halt sp (k + 1) FootageStage f
           | Inr footage \<Rightarrow>
               Yield (event sp (k + 1) Progress (stage_name FootageStage) None
                        (Some [(''clips'', JNum (Fin (real (length (clips footage)))))]))
                 (render_phase st sp cfg (k + 2) narration footage)))"

definition narration_phase ::
  "stages \<Rightarrow> stamps \<Rightarrow> RunConfig \<Rightarrow> nat \<Rightarrow> Script \<Rightarrow> yielded gen" where
  "narration_phase st sp cfg k script =
     Yield (event sp k Info (stage_name NarrationStage) None None)
       (Invoke NarrationStage
          (case narration_stage st cfg script of
             Inl f \<Rightarrow> halt sp (k + 1) NarrationStage f
           | Inr narration \<Rightarrow>
               Yield (event sp (k + 1) Progress (stage_name NarrationStage) None
                        (Some [(''duration'', JNum (Fin (narration_seconds narration)))]))
                 (footage_phase st sp cfg (k + 2) script narration)))"

text \<open>
  Modelled from the spec: the generator that \<^verbatim>\<open>createPipeline()(config)\<close>
  returns, starting with the Script stage; each phase above continues with the next stage.
\<close>

definition conductor :: "stages \<Rightarrow> stamps \<Rightarrow> RunConfig \<Rightarrow> yielded gen" where
  "conductor st sp cfg =
     Yield (event sp 0 Info (stage_name ScriptStage) None None)
       (Invoke ScriptStage
          (case script_stage st cfg of
             Inl f \<Rightarrow> halt sp 1 ScriptStage f
           | Inr script \<Rightarrow>
               Yield (event sp 1 Progress (stage_name ScriptStage) None
                        (Some [(''segments'', JNum (Fin (real (length (segments script)))))]))
                 (narration_phase st sp cfg 2 script)))"

definition run_events :: "stages \<Rightarrow> stamps \<Rightarrow> RunConfig \<Rightarrow> RunLog list" where
  "run_events st sp cfg = truthy (yields (conductor st sp cfg))"

text \<open>
  A terminal event is the \<open>success\<close> event or a halting \<open>error\<close>; the error event of
  a failed Notify is not terminal.
\<close>

definition is_terminal :: "RunLog \<Rightarrow> bool" where
  "is_terminal e =
     (status e = Success \<or> (status e = Error \<and> title e \<noteq> stage_name NotifyStage))"

section \<open>The last message of a stream\<close>

text \<open>
  What the transport enqueues last when the generator is driven to its end: the sentinel
  after a return, the synthesized event after a throw.
\<close>

definition final_chunk :: "(RunLog \<Rightarrow> string) \<Rightarrow> string \<Rightarrow> string \<Rightarrow> yielded gen \<Rightarrow> string" where
  "final_chunk stringify uuid now g =
     (case ending g of None \<Rightarrow> done_chunk | Some x \<Rightarrow> sse (stringify (fatal_event uuid now x)))"

section \<open>Concrete inputs\<close>

text \<open>Small concrete platform functions, requests and generators for the examples.\<close>

definition demo_toNumber :: "string \<Rightarrow> jsnum" where
  "demo_toNumber s = (if s = ''90'' then Fin 90 else NaN)"

definition demo_stringify :: "RunLog \<Rightarrow> string" where
  "demo_stringify e = ''{title:'' @ title e @ ''}''"

definition demo_body :: json where
  "demo_body =
     JObj [(''openaiKey'', JStr ''sk-1''), (''elevenLabsKey'', JStr ''el-1''),
           (''pexelsKey'', JStr ''px-1''), (''youtubeClientId'', JStr ''id-1''),
           (''youtubeClientSecret'', JStr ''sec-1''), (''youtubeRefreshToken'', JStr ''ref-1'')]"

definition demo_env :: "string \<Rightarrow> string option" where
  "demo_env =
     map_of [(''OPENAI_API_KEY'', ''sk-1''), (''ELEVENLABS_API_KEY'', ''el-1''),
             (''PEXELS_API_KEY'', ''px-1''), (''YOUTUBE_CLIENT_ID'', ''id-1''),
             (''YOUTUBE_CLIENT_SECRET'', ''sec-1''), (''YOUTUBE_REFRESH_TOKEN'', ''ref-1'')]"

definition demo_event :: "string \<Rightarrow> RunLog" where
  "demo_event t =
     \<lparr> id_str = ''e'', status = Info, title = t, detail = None, timestamp = ''t0'', meta = None \<rparr>"

definition demo_pipeline :: "RunConfig \<Rightarrow> yielded gen" where
  "demo_pipeline cfg =
     Yield (Some (demo_event ''a''))
       (Invoke ScriptStage (Yield None (Yield (Some (demo_event ''b'')) Return)))"

definition demo_throwing_pipeline :: "RunConfig \<Rightarrow> yielded gen" where
  "demo_throwing_pipeline cfg =
     Yield (Some (demo_event ''a'')) (Invoke ScriptStage (Throw (ErrorObj ''boom'')))"

definition demo_event_pipeline :: "RunConfig \<Rightarrow> yielded gen" where
  "demo_event_pipeline cfg =
     Yield (Some (demo_event ''a'')) (Invoke ScriptStage (Yield (Some (demo_event ''b'')) Return))"

section \<open>Well-ended event sequences\<close>

text \<open>
  A generator is well ended when its events are some non-terminal events followed by
  exactly one terminal event, and it returns exactly when that event is the success.
\<close>

definition well_ended :: "yielded gen \<Rightarrow> bool" where
  "well_ended g =
     (case rev (truthy (yields g)) of
        [] \<Rightarrow> False
      | t # before \<Rightarrow>
          is_terminal t \<and> (status t = Success \<or> status t = Error) \<and>
          list_all (\<lambda>e. \<not> is_terminal e) before \<and>
          (ending g = None \<longleftrightarrow> status t = Success))"

definition demo_stamps :: stamps where
  "demo_stamps = \<lparr> event_id = (\<lambda>k. ''ev''), event_time = (\<lambda>k. ''t0'') \<rparr>"

definition demo_config :: RunConfig where
  "demo_config =
     \<lparr> cfg_openaiKey = ''sk-1'', cfg_elevenLabsKey = ''el-1'', cfg_pexelsKey = ''px-1'',
       cfg_youtubeClientId = ''id-1'', cfg_youtubeClientSecret = ''sec-1'',
       cfg_youtubeRefreshToken = ''ref-1'', cfg_voiceId = ''21m00Tcm4TlvDq8ikWAM'',
       cfg_videoTopic = ''Daily AI news recap'', cfg_targetDurationSeconds = 60,
       cfg_uploadTitleTemplate = ''Daily Briefing - {{date}}'',
       cfg_uploadDescriptionTemplate = ''Automated summary for {{date}}.'',
       cfg_uploadTags = [], cfg_visibility = ''unlisted'', cfg_allowCopyrightAudio = False,
       cfg_preset = ''news'', cfg_webhookUrl = ''https://hook.example/run'',
       cfg_runContext = [], cfg_extraInstructions = [] \<rparr>"

definition demo_result :: PublishResult where
  "demo_result =
     \<lparr> video_id = ''v1'', video_url = ''https://video.example/v1'',
       applied_visibility = ''unlisted'', final_title = ''Daily Briefing - 2026-01-01'',
       final_description = ''Automated summary for 2026-01-01.'' \<rparr>"

definition demo_stages :: stages where
  "demo_stages =
     \<lparr> script_stage = (\<lambda>cfg. Inr \<lparr> segments = [(''Hello'', 60)] \<rparr>),
       narration_stage = (\<lambda>cfg s. Inr \<lparr> audio = ''blob:a'', narration_seconds = 60 \<rparr>),
       footage_stage = (\<lambda>cfg s. Inr \<lparr> clips = [(''clip1'', 60, 1080)] \<rparr>),
       render_stage = (\<lambda>cfg n f. Inr \<lparr> media = ''blob:v'', render_seconds = 60 \<rparr>),
       publish_stage = (\<lambda>cfg v. Inr demo_result),
       notify_stage = (\<lambda>cfg p. Inl \<lparr> kind = NotifyFailure, reason = ''webhook 500'' \<rparr>) \<rparr>"

section \<open>What a stream still owes\<close>

text \<open>
  The chunks and stage calls still to come from an open stream, and the number of reads
  after which nothing is left.
\<close>

definition rest ::
  "(RunLog \<Rightarrow> string) \<Rightarrow> string \<Rightarrow> string \<Rightarrow> stream \<Rightarrow> string list" where
  "rest stringify uuid now s =
     (if closed s then []
      else messages stringify (yields (generator s)) @
           [final_chunk stringify uuid now (generator s)])"

definition todo :: "stream \<Rightarrow> stage list" where
  "todo s = (if closed s then [] else invocations (generator s))"

definition work :: "stream \<Rightarrow> nat" where
  "work s = length (queue s) + (if closed s then 0 else Suc (length (yields (generator s))))"

definition in_order :: "stream \<Rightarrow> bool" where
  "in_order s = (\<not> cancelled s \<and> enqueued s = delivered s @ queue s)"

text \<open>
  A step keeps a stream when what was enqueued and started together with what is still
  owed stays the same, the chunks stay in order, and no read is added to those needed.
\<close>

definition kept :: "(RunLog \<Rightarrow> string) \<Rightarrow> string \<Rightarrow> string \<Rightarrow> stream \<Rightarrow> stream \<Rightarrow> bool" where
  "kept f u t s s' =
     (enqueued s' @ rest f u t s' = enqueued s @ rest f u t s \<and>
      started s' @ todo s' = started s @ todo s \<and> in_order s' \<and> work s' \<le> work s)"

section \<open>Cancelling between two stages\<close>



section \<open>Comparing the two construction paths\<close>

text \<open>
  The request property that corresponds to each environment variable. A body carries the
  same raw input as an environment when each of these properties is the string of its
  variable, and is absent when the variable is unset.
\<close>

definition env_keys :: "(string \<times> string) list" where
  "env_keys =
     [(''openaiKey'', ''OPENAI_API_KEY''), (''elevenLabsKey'', ''ELEVENLABS_API_KEY''),
      (''pexelsKey'', ''PEXELS_API_KEY''), (''youtubeClientId'', ''YOUTUBE_CLIENT_ID''),
      (''youtubeClientSecret'', ''YOUTUBE_CLIENT_SECRET''),
      (''youtubeRefreshToken'', ''YOUTUBE_REFRESH_TOKEN''),
      (''voiceId'', ''PIPELINE_VOICE_ID''), (''videoTopic'', ''PIPELINE_DEFAULT_TOPIC''),
      (''targetDurationSeconds'', ''PIPELINE_TARGET_DURATION''),
      (''uploadTitleTemplate'', ''PIPELINE_UPLOAD_TITLE_TEMPLATE''),
      (''uploadDescriptionTemplate'', ''PIPELINE_UPLOAD_DESCRIPTION_TEMPLATE''),
      (''uploadTags'', ''PIPELINE_UPLOAD_TAGS''),
      (''visibility'', ''PIPELINE_UPLOAD_VISIBILITY''),
      (''allowCopyrightAudio'', ''PIPELINE_ALLOW_COPY_AUDIO''),
      (''preset'', ''PIPELINE_PRESET''), (''webhookUrl'', ''PIPELINE_WEBHOOK_URL''),
      (''runContext'', ''PIPELINE_RUN_CONTEXT''),
      (''extraInstructions'', ''PIPELINE_EXTRA_INSTRUCTIONS'')]"

definition same_raw :: "(string \<Rightarrow> string option) \<Rightarrow> json \<Rightarrow> bool" where
  "same_raw env body =
     list_all (\<lambda>(k, var). get_prop body k = map_option JStr (env var)) env_keys"

definition plain :: "string option \<Rightarrow> bool" where
  "plain v = (case v of None \<Rightarrow> True | Some s \<Rightarrow> trim s = s)"

definition plain_nonempty :: "string option \<Rightarrow> bool" where
  "plain_nonempty v = (case v of None \<Rightarrow> True | Some s \<Rightarrow> s \<noteq> [] \<and> trim s = s)"

text \<open>
  The environments on which the two paths agree: set text values have no surrounding
  white space and, where the defaults or the empty string are treated differently, are not
  empty; topic and both templates are set; visibility, preset and the copyright flag are
  values both paths read alike; the tag list has no newline and no empty entry.
\<close>

definition aligned :: "(string \<Rightarrow> string option) \<Rightarrow> bool" where
  "aligned env =
     (list_all (\<lambda>var. plain_nonempty (env var))
        [''OPENAI_API_KEY'', ''ELEVENLABS_API_KEY'', ''PEXELS_API_KEY'', ''YOUTUBE_CLIENT_ID'',
         ''YOUTUBE_CLIENT_SECRET'', ''YOUTUBE_REFRESH_TOKEN'', ''PIPELINE_VOICE_ID'',
         ''PIPELINE_DEFAULT_TOPIC'', ''PIPELINE_UPLOAD_TITLE_TEMPLATE'',
         ''PIPELINE_UPLOAD_DESCRIPTION_TEMPLATE''] \<and>
      list_all (\<lambda>var. plain (env var))
        [''PIPELINE_WEBHOOK_URL'', ''PIPELINE_RUN_CONTEXT'', ''PIPELINE_EXTRA_INSTRUCTIONS''] \<and>
      list_all (\<lambda>var. env var \<noteq> None)
        [''PIPELINE_DEFAULT_TOPIC'', ''PIPELINE_UPLOAD_TITLE_TEMPLATE'',
         ''PIPELINE_UPLOAD_DESCRIPTION_TEMPLATE''] \<and>
      (case env ''PIPELINE_UPLOAD_VISIBILITY'' of
         None \<Rightarrow> True | Some v \<Rightarrow> v \<in> set visibilities) \<and>
      (case env ''PIPELINE_PRESET'' of None \<Rightarrow> True | Some v \<Rightarrow> v \<in> set presets) \<and>
      (case env ''PIPELINE_ALLOW_COPY_AUDIO'' of None \<Rightarrow> True | Some v \<Rightarrow> v = ''true'') \<and>
      (case env ''PIPELINE_UPLOAD_TAGS'' of
         None \<Rightarrow> True
       | Some s \<Rightarrow> CHR 0x0A \<notin> set s \<and> [] \<notin> set (map trim (split_char CHR '','' s))))"

text \<open>Concrete environments and bodies carrying the same raw input.\<close>

definition hidden_env :: "string \<Rightarrow> string option" where
  "hidden_env = demo_env(''PIPELINE_UPLOAD_VISIBILITY'' \<mapsto> ''hidden'')"

definition hidden_body :: json where
  "hidden_body =
     JObj [(''openaiKey'', JStr ''sk-1''), (''elevenLabsKey'', JStr ''el-1''),
           (''pexelsKey'', JStr ''px-1''), (''youtubeClientId'', JStr ''id-1''),
           (''youtubeClientSecret'', JStr ''sec-1''), (''youtubeRefreshToken'', JStr ''ref-1''),
           (''visibility'', JStr ''hidden'')]"

definition lines_env :: "string \<Rightarrow> string option" where
  "lines_env = demo_env(''PIPELINE_UPLOAD_TAGS'' \<mapsto> [CHR ''a'', CHR 0x0A, CHR ''b''])"

definition lines_body :: json where
  "lines_body =
     JObj [(''openaiKey'', JStr ''sk-1''), (''elevenLabsKey'', JStr ''el-1''),
           (''pexelsKey'', JStr ''px-1''), (''youtubeClientId'', JStr ''id-1''),
           (''youtubeClientSecret'', JStr ''sec-1''), (''youtubeRefreshToken'', JStr ''ref-1''),
           (''uploadTags'', JStr [CHR ''a'', CHR 0x0A, CHR ''b''])]"

definition full_env :: "string \<Rightarrow> string option" where
  "full_env =
     map_of [(''OPENAI_API_KEY'', ''sk-1''), (''ELEVENLABS_API_KEY'', ''el-1''),
             (''PEXELS_API_KEY'', ''px-1''), (''YOUTUBE_CLIENT_ID'', ''id-1''),
             (''YOUTUBE_CLIENT_SECRET'', ''sec-1''), (''YOUTUBE_REFRESH_TOKEN'', ''ref-1''),
             (''PIPELINE_DEFAULT_TOPIC'', ''Space news''),
             (''PIPELINE_TARGET_DURATION'', ''90''),
             (''PIPELINE_UPLOAD_TITLE_TEMPLATE'', ''Daily Briefing - {{date}}''),
             (''PIPELINE_UPLOAD_DESCRIPTION_TEMPLATE'', ''Summary for {{date}}.''),
             (''PIPELINE_UPLOAD_TAGS'', ''ai, tech''),
             (''PIPELINE_UPLOAD_VISIBILITY'', ''public''),
             (''PIPELINE_ALLOW_COPY_AUDIO'', ''true''),
             (''PIPELINE_PRESET'', ''facts'')]"

definition full_body :: json where
  "full_body =
     JObj [(''openaiKey'', JStr ''sk-1''), (''elevenLabsKey'', JStr ''el-1''),
           (''pexelsKey'', JStr ''px-1''), (''youtubeClientId'', JStr ''id-1''),
           (''youtubeClientSecret'', JStr ''sec-1''), (''youtubeRefreshToken'', JStr ''ref-1''),
           (''videoTopic'', JStr ''Space news''), (''targetDurationSeconds'', JStr ''90''),
           (''uploadTitleTemplate'', JStr ''Daily Briefing - {{date}}''),
           (''uploadDescriptionTemplate'', JStr ''Summary for {{date}}.''),
           (''uploadTags'', JStr ''ai, tech''), (''visibility'', JStr ''public''),
           (''allowCopyrightAudio'', JStr ''true''), (''preset'', JStr ''facts'')]"

text \<open>Bodies whose enumerated and numeric fields need normalizing.\<close>

definition padded_body :: json where
  "padded_body =
     JObj [(''visibility'', JStr '' private ''), (''preset'', JStr '' facts ''),
           (''targetDurationSeconds'', JStr ''90'')]"

definition odd_body :: json where
  "odd_body =
     JObj [(''openaiKey'', JStr ''sk-1''), (''elevenLabsKey'', JStr ''el-1''),
           (''pexelsKey'', JStr ''px-1''), (''youtubeClientId'', JStr ''id-1''),
           (''youtubeClientSecret'', JStr ''sec-1''), (''youtubeRefreshToken'', JStr ''ref-1''),
           (''visibility'', JStr ''hidden''), (''preset'', JNum (Fin 3)),
           (''targetDurationSeconds'', JNum (Fin (- 5)))]"

definition odd_config :: RunConfig where
  "odd_config =
     \<lparr> cfg_openaiKey = ''sk-1'', cfg_elevenLabsKey = ''el-1'', cfg_pexelsKey = ''px-1'',
       cfg_youtubeClientId = ''id-1'', cfg_youtubeClientSecret = ''sec-1'',
       cfg_youtubeRefreshToken = ''ref-1'', cfg_voiceId = ''21m00Tcm4TlvDq8ikWAM'',
       cfg_videoTopic = ''Daily AI news round-up'', cfg_targetDurationSeconds = 120,
       cfg_uploadTitleTemplate = ''Daily AI Highlights - {{date}}'',
       cfg_uploadDescriptionTemplate = ''Automated AI news for {{date}}.'',
       cfg_uploadTags = [], cfg_visibility = ''unlisted'', cfg_allowCopyrightAudio = False,
       cfg_preset = ''news'', cfg_webhookUrl = [], cfg_runContext = [],
       cfg_extraInstructions = [] \<rparr>"

section \<open>Driving a stream to its end\<close>

lemma truthy_Cons: "truthy (v # vs) = (case v of None \<Rightarrow> truthy vs | Some e \<Rightarrow> e # truthy vs)"
  by (simp add: truthy_def List.map_filter_simps split: option.splits)

lemma truthy_Nil: "truthy [] = []"
  by (simp add: truthy_def List.map_filter_simps)

lemma gnext_Value:
  "gnext g = (cs, Value v, g') \<Longrightarrow>
   yields g = v # yields g' \<and> ending g = ending g' \<and> invocations g = cs @ invocations g'"
  by (induction g arbitrary: cs) (auto split: prod.splits)

lemma gnext_Done:
  "gnext g = (cs, Done, g') \<Longrightarrow>
   yields g = [] \<and> ending g = None \<and> invocations g = cs \<and> g' = Return"
  by (induction g arbitrary: cs) (auto split: prod.splits)

lemma gnext_Thrown:
  "gnext g = (cs, Thrown x, g') \<Longrightarrow>
   yields g = [] \<and> ending g = Some x \<and> invocations g = cs \<and> g' = Return"
  by (induction g arbitrary: cs) (auto split: prod.splits)

lemma kept_refl: "in_order s \<Longrightarrow> kept f u t s s"
  by (simp add: kept_def)

lemma kept_trans: "kept f u t s s' \<Longrightarrow> kept f u t s' s'' \<Longrightarrow> kept f u t s s''"
  by (simp add: kept_def)

lemma pull_kept:
  assumes "in_order s" and "\<not> closed s"
  shows "kept f u t s (pull f u t s) \<and>
         (queue (pull f u t s) = queue s \<longrightarrow> work (pull f u t s) < work s) \<and>
         (queue s = [] \<longrightarrow> length (queue (pull f u t s)) \<le> 1)"
proof -
  obtain cs r g' where g: "gnext (generator s) = (cs, r, g')" by (cases "gnext (generator s)")
  show ?thesis
  proof (cases r)
    case (Value v)
    note y = gnext_Value[OF g[unfolded Value]]
    show ?thesis
    proof (cases v)
      case None
      then show ?thesis using assms g Value y
        by (simp add: pull_def kept_def rest_def todo_def work_def in_order_def messages_def
            truthy_Cons final_chunk_def)
    next
      case (Some e)
      then show ?thesis using assms g Value y
        by (simp add: pull_def enqueue_def kept_def rest_def todo_def work_def in_order_def
            messages_def truthy_Cons final_chunk_def)
    qed
  next
    case Done
    note y = gnext_Done[OF g[unfolded Done]]
    show ?thesis using assms g Done y
      by (simp add: pull_def enqueue_def kept_def rest_def todo_def work_def in_order_def
          messages_def truthy_Nil final_chunk_def)
  next
    case (Thrown x)
    note y = gnext_Thrown[OF g[unfolded Thrown]]
    show ?thesis using assms g Thrown y
      by (simp add: pull_def enqueue_def kept_def rest_def todo_def work_def in_order_def
          messages_def truthy_Nil final_chunk_def)
  qed
qed

lemma pull_if_needed_kept: "in_order s \<Longrightarrow> kept f u t s (pull_if_needed f u t s)"
  using pull_kept[of s f u t] by (auto simp: pull_if_needed_def in_order_def kept_refl)

lemma hand_over_kept:
  assumes "in_order s" and "queue s \<noteq> []"
  shows "kept f u t s (hand_over s) \<and> work (hand_over s) < work s"
  using assms
  by (cases "queue s")
    (simp_all add: hand_over_def kept_def rest_def todo_def work_def in_order_def)

lemma read_chunk_kept:
  assumes "in_order s"
  shows "kept f u t s (read_chunk f u t s) \<and>
         (0 < work s \<longrightarrow> work (read_chunk f u t s) < work s)"
proof (cases "queue s \<noteq> []")
  case True
  have h: "kept f u t s (hand_over s)" "work (hand_over s) < work s"
    using hand_over_kept[OF assms True] by simp_all
  then have i: "in_order (hand_over s)" by (simp add: kept_def)
  have k: "kept f u t (hand_over s) (pull_if_needed f u t (hand_over s))"
    by (rule pull_if_needed_kept[OF i])
  have "work (pull_if_needed f u t (hand_over s)) < work s"
    using k h(2) by (simp add: kept_def)
  moreover have "read_chunk f u t s = pull_if_needed f u t (hand_over s)"
    using True assms by (simp add: read_chunk_def in_order_def)
  ultimately show ?thesis using kept_trans[OF h(1) k] by simp
next
  case False
  then have q: "queue s = []" by simp
  show ?thesis
  proof (cases "closed s")
    case True
    then show ?thesis using q assms by (simp add: read_chunk_def in_order_def kept_refl work_def)
  next
    case False
    let ?p = "pull f u t s"
    note p = pull_kept[OF assms False, of f u t]
    have ip: "in_order ?p" using p by (simp add: kept_def)
    show ?thesis
    proof (cases "queue ?p = []")
      case True
      then have "read_chunk f u t s = ?p" using q False assms
        by (simp add: read_chunk_def in_order_def Let_def)
      moreover have "work ?p < work s" using p True q by simp
      ultimately show ?thesis using p by simp
    next
      case nonempty: False
      have h: "kept f u t ?p (hand_over ?p)" "work (hand_over ?p) < work ?p"
        using hand_over_kept[OF ip nonempty] by simp_all
      then have i: "in_order (hand_over ?p)" by (simp add: kept_def)
      have k: "kept f u t (hand_over ?p) (pull_if_needed f u t (hand_over ?p))"
        by (rule pull_if_needed_kept[OF i])
      have r: "read_chunk f u t s = pull_if_needed f u t (hand_over ?p)"
        using q False assms nonempty by (simp add: read_chunk_def in_order_def Let_def)
      have "work (pull_if_needed f u t (hand_over ?p)) < work s"
        using k h(2) p by (simp add: kept_def)
      moreover have "kept f u t s (pull_if_needed f u t (hand_over ?p))"
        using kept_trans[OF kept_trans[OF conjunct1[OF p] h(1)] k] .
      ultimately show ?thesis unfolding r by simp
    qed
  qed
qed

lemma drain_kept:
  "in_order s \<Longrightarrow> kept f u t s (drain f u t n s) \<and> work (drain f u t n s) \<le> work s - n"
proof (induction n arbitrary: s)
  case 0
  then show ?case by (simp add: kept_refl)
next
  case (Suc n)
  note r = read_chunk_kept[OF Suc.prems, of f u t]
  then have i: "in_order (read_chunk f u t s)" by (simp add: kept_def)
  note ih = Suc.IH[OF i]
  have "kept f u t s (drain f u t (Suc n) s)"
    using kept_trans[OF conjunct1[OF r] conjunct1[OF ih]] by simp
  moreover have "work (drain f u t (Suc n) s) \<le> work s - Suc n"
    using ih r by (cases "work s") (auto simp: kept_def)
  ultimately show ?case by simp
qed

lemma open_stream_kept:
  "kept f u t (fresh_stream g) (open_stream f u t g)"
  unfolding open_stream_def
  by (rule pull_if_needed_kept) (simp add: in_order_def fresh_stream_def)

lemma drain_open:
  assumes "length (yields g) < n"
  shows "enqueued (drain f u t n (open_stream f u t g)) =
           messages f (yields g) @ [final_chunk f u t g] \<and>
         delivered (drain f u t n (open_stream f u t g)) =
           messages f (yields g) @ [final_chunk f u t g] \<and>
         started (drain f u t n (open_stream f u t g)) = invocations g \<and>
         closed (drain f u t n (open_stream f u t g)) \<and>
         queue (drain f u t n (open_stream f u t g)) = [] \<and>
         \<not> cancelled (drain f u t n (open_stream f u t g))"
proof -
  let ?o = "open_stream f u t g" and ?d = "drain f u t n (open_stream f u t g)"
  note o = open_stream_kept[of f u t g]
  then have io: "in_order ?o" by (simp add: kept_def)
  note d = drain_kept[OF io, of f u t n]
  have k: "kept f u t (fresh_stream g) ?d" using kept_trans[OF o conjunct1[OF d]] .
  have "work ?o \<le> Suc (length (yields g))"
    using o by (simp add: kept_def work_def fresh_stream_def)
  then have w: "work ?d = 0" using d assms by simp
  then have c: "closed ?d" "queue ?d = []" by (simp_all add: work_def split: if_splits)
  have e: "enqueued ?d = messages f (yields g) @ [final_chunk f u t g]"
    and s: "started ?d = invocations g" and i: "in_order ?d"
    using k c by (simp_all add: kept_def rest_def todo_def fresh_stream_def)
  have dl: "delivered ?d = enqueued ?d" and nc: "\<not> cancelled ?d"
    using i c by (simp_all add: in_order_def)
  show ?thesis using e s c nc dl by simp
qed

lemma for_await_eq: "for_await g acc = (acc @ yields g, ending g)"
  by (induction g arbitrary: acc) auto

lemma POST_accepts:
  "schema (coerceBody toNumber js) = Inr data \<Longrightarrow>
   POST schema pipeline toNumber f u t (Inr js) = EventStream (open_stream f u t (pipeline data))"
  by (simp add: POST_def)



lemma flatten_covers:
  "i \<in> set err \<Longrightarrow> path i \<noteq> [] \<Longrightarrow>
   \<exists>ms. (hd (path i), ms) \<in> set (fieldErrors (flatten err)) \<and> message i \<in> set ms"
  by (force simp: flatten_def)

section \<open>White space\<close>

lemma strip_none: "leading pats s = None \<Longrightarrow> strip pats s = s"
  by (subst strip.simps) simp

lemma strip_some: "leading pats s = Some w \<Longrightarrow> strip pats s = strip pats (drop (length w) s)"
  by (subst strip.simps) simp

lemma leading_none_hd:
  assumes "s \<noteq> []" and "hd s \<notin> set (map hd pats)"
  shows "leading pats s = None"
proof -
  have "\<not> (w \<noteq> [] \<and> take (length w) s = w)" if "w \<in> set pats" for w
  proof
    assume a: "w \<noteq> [] \<and> take (length w) s = w"
    then have "hd w = hd s" using assms(1) by (metis hd_take length_greater_0_conv)
    then have "hd s \<in> hd ` set pats" using that by (metis imageI)
    then show False using assms(2) by simp
  qed
  then show ?thesis by (auto simp: leading_def find_None_iff)
qed

lemma trim_plain:
  assumes "s \<noteq> []" and "hd s \<notin> set ws_first" and "last s \<notin> set ws_last"
  shows "trim s = s"
proof -
  have 1: "strip white_space s = s"
    using assms(1,2) by (simp add: strip_none leading_none_hd ws_first_def)
  have "map hd (map rev white_space) = ws_last"
    by (simp add: ws_last_def white_space_def)
  then have "hd (rev s) \<notin> set (map hd (map rev white_space))"
    using assms(1,3) by (simp add: hd_rev)
  then have 2: "strip (map rev white_space) (rev s) = rev s"
    using assms(1) by (intro strip_none leading_none_hd) simp_all
  show ?thesis by (simp add: trim_def 1 2)
qed

lemma ws_edge:
  "set ws_first = {CHR 0x09, CHR 0x0A, CHR 0x0B, CHR 0x0C, CHR 0x0D, CHR 0x20, CHR 0xC2,
     CHR 0xE1, CHR 0xE2, CHR 0xE3, CHR 0xEF}"
  "set ws_last = {CHR 0x09, CHR 0x0A, CHR 0x0B, CHR 0x0C, CHR 0x0D, CHR 0x20, CHR 0xA0,
     CHR 0x80, CHR 0x81, CHR 0x82, CHR 0x83, CHR 0x84, CHR 0x85, CHR 0x86, CHR 0x87, CHR 0x88,
     CHR 0x89, CHR 0x8A, CHR 0xA8, CHR 0xA9, CHR 0xAF, CHR 0x9F, CHR 0xBF}"
  by (auto simp: ws_first_def ws_last_def white_space_def)

lemma trim_Nil: "trim [] = []"
  by (simp add: trim_def strip_none leading_def white_space_def)

lemma trim_padded_private: "trim '' private '' = ''private''"
proof -
  have 1: "strip white_space '' private '' = ''private ''"
    by (subst strip_some[where w = "'' ''"])
      (simp_all add: leading_def white_space_def strip_none leading_none_hd ws_first_def[symmetric] ws_edge)
  have 2: "strip (map rev white_space) (rev ''private '') = rev ''private''"
    by (subst strip_some[where w = "'' ''"])
      (simp_all add: leading_def white_space_def strip_none leading_none_hd)
  show ?thesis by (simp only: trim_def 1 2 rev_rev_ident)
qed

lemma trim_nbsp: "trim [CHR ''a'', CHR 0xC2, CHR 0xA0] = ''a''"
proof -
  have 1: "strip white_space [CHR ''a'', CHR 0xC2, CHR 0xA0] = [CHR ''a'', CHR 0xC2, CHR 0xA0]"
    by (simp add: strip_none leading_none_hd ws_first_def[symmetric] ws_edge)
  have 2: "strip (map rev white_space) (rev [CHR ''a'', CHR 0xC2, CHR 0xA0]) = ''a''"
    by (subst strip_some[where w = "[CHR 0xA0, CHR 0xC2]"])
      (simp_all add: leading_def white_space_def strip_none leading_none_hd)
  show ?thesis by (simp only: trim_def 1 2) simp
qed

section \<open>Evaluating the concrete inputs\<close>

lemmas coerce_defs = coerceBody_def tr_def get_prop_def or_else_def coerceNumber_def
  numeric_input_def
  to_boolean_def isFinite_def gt0_def

lemmas schema_defs = schema_issues_def required_def duration_issues_def visibility_issues_def
  preset_issues_def visibilities_def presets_def isFinite_def gt0_def

lemma demo_body_coerced:
  "coerceBody demo_toNumber demo_body =
     \<lparr> openaiKey = Some ''sk-1'', elevenLabsKey = Some ''el-1'', pexelsKey = Some ''px-1'',
       youtubeClientId = Some ''id-1'', youtubeClientSecret = Some ''sec-1'',
       youtubeRefreshToken = Some ''ref-1'', voiceId = ''21m00Tcm4TlvDq8ikWAM'',
       videoTopic = ''Daily AI news round-up'', targetDurationSeconds = Fin 120,
       uploadTitleTemplate = ''Daily AI Highlights - {{date}}'',
       uploadDescriptionTemplate = ''Automated AI news for {{date}}.'',
       uploadTags = [], visibility = ''unlisted'', allowCopyrightAudio = False,
       preset = ''news'', webhookUrl = [], runContext = [], extraInstructions = [] \<rparr>"
  by (simp add: coerce_defs demo_body_def trim_plain ws_edge)

lemma demo_body_accepted:
  "\<exists>cfg. pipelineRequestSchema (coerceBody demo_toNumber demo_body) = Inr cfg"
  by (simp add: demo_body_coerced pipelineRequestSchema_def schema_defs)

section \<open>Rejection of a malformed interactive request\<close>

text \<open>
  Claim C2. When the coerced body of an interactive POST request fails the schema, the
  handler answers with status 422 and the flattened validation errors, in which every
  issue with a path is listed under its field. The response is no event stream and does
  not depend on the pipeline: no generator is constructed, so no stage runs and no event
  is produced.
\<close>

theorem post_rejects_invalid_body:
  assumes "schema (coerceBody toNumber js) = Inl err"
  shows "POST schema pipeline toNumber stringify uuid now (Inr js) =
           JsonResponse 422 (InvalidPayload ''Invalid payload'' (flatten err)) \<and>
         (\<forall>s. POST schema pipeline toNumber stringify uuid now (Inr js) \<noteq> EventStream s) \<and>
         (\<forall>other. POST schema other toNumber stringify uuid now (Inr js) = POST schema pipeline toNumber stringify uuid now (Inr js)) \<and>
         (\<forall>i \<in> set err. path i \<noteq> [] \<longrightarrow>
            (\<exists>ms. (hd (path i), ms) \<in> set (fieldErrors (flatten err)) \<and> message i \<in> set ms))"
  using assms flatten_covers[of _ err] by (simp add: POST_def)

theorem post_rejects_invalid_body_witness:
  "POST pipelineRequestSchema demo_pipeline demo_toNumber demo_stringify ''u1'' ''t1''
     (Inr (JObj [(''visibility'', JStr ''public'')])) =
     JsonResponse 422
       (InvalidPayload ''Invalid payload''
          \<lparr> formErrors = [],
            fieldErrors =
              [(''openaiKey'', [''Required'']), (''elevenLabsKey'', [''Required'']),
               (''pexelsKey'', [''Required'']), (''youtubeClientId'', [''Required'']),
               (''youtubeClientSecret'', [''Required'']),
               (''youtubeRefreshToken'', [''Required''])] \<rparr>)"
proof -
  let ?js = "JObj [(''visibility'', JStr ''public'')]"
  let ?err = "[field_issue ''openaiKey'' ''Required'', field_issue ''elevenLabsKey'' ''Required'',
     field_issue ''pexelsKey'' ''Required'', field_issue ''youtubeClientId'' ''Required'',
     field_issue ''youtubeClientSecret'' ''Required'',
     field_issue ''youtubeRefreshToken'' ''Required'']"
  have a: "pipelineRequestSchema (coerceBody demo_toNumber ?js) = Inl ?err"
    by (simp add: coerce_defs trim_plain ws_edge pipelineRequestSchema_def schema_defs)
  have f: "flatten ?err = \<lparr> formErrors = [],
            fieldErrors =
              [(''openaiKey'', [''Required'']), (''elevenLabsKey'', [''Required'']),
               (''pexelsKey'', [''Required'']), (''youtubeClientId'', [''Required'']),
               (''youtubeClientSecret'', [''Required'']),
               (''youtubeRefreshToken'', [''Required''])] \<rparr>"
    by (simp add: flatten_def field_issue_def)
  show ?thesis
    using post_rejects_invalid_body[where schema = pipelineRequestSchema
        and toNumber = demo_toNumber and js = ?js and err = ?err
        and pipeline = demo_pipeline and stringify = demo_stringify
        and uuid = "''u1''" and now = "''t1''", OF a, THEN conjunct1]
    unfolding f .
qed

section \<open>The interactive event stream\<close>

text \<open>
  Claim C3. For a run started through POST whose generator yields RunEvent objects and
  returns, a reader that keeps reading receives one message per yielded event, in the
  order of the yields, each message being \<^verbatim>\<open>data: \<close>, the JSON encoding of that one
  event and a blank line, then the message \<^verbatim>\<open>data: [DONE]\<close>; these are exactly the
  chunks the handler enqueued, none is left waiting, and the stream is closed.
\<close>

theorem post_stream_forwards_events:
  assumes "schema (coerceBody toNumber js) = Inr data"
    and "list_all (\<lambda>v. v \<noteq> None) (yields (pipeline data))"
    and "ending (pipeline data) = None"
    and "length (yields (pipeline data)) < n"
  shows "\<exists>s. POST schema pipeline toNumber stringify uuid now (Inr js) = EventStream s \<and>
           delivered (drain stringify uuid now n s) =
             map (\<lambda>v. ''data: '' @ stringify (the v) @ [CHR 0x0A, CHR 0x0A])
               (yields (pipeline data)) @
             [''data: [DONE]'' @ [CHR 0x0A, CHR 0x0A]] \<and>
           enqueued (drain stringify uuid now n s) = delivered (drain stringify uuid now n s) \<and>
           queue (drain stringify uuid now n s) = [] \<and>
           closed (drain stringify uuid now n s)"
proof -
  let ?g = "pipeline data"
  let ?s = "open_stream stringify uuid now ?g"
  note d = drain_open[OF assms(4), of stringify uuid now]
  have m: "messages stringify vs =
      map (\<lambda>v. ''data: '' @ stringify (the v) @ [CHR 0x0A, CHR 0x0A]) vs"
    if "list_all (\<lambda>v. v \<noteq> None) vs" for vs
    using that by (induction vs) (auto simp: messages_def truthy_Cons truthy_Nil sse_def)
  have f: "final_chunk stringify uuid now ?g = ''data: [DONE]'' @ [CHR 0x0A, CHR 0x0A]"
    using assms(3) by (simp add: final_chunk_def done_chunk_def sse_def)
  have "POST schema pipeline toNumber stringify uuid now (Inr js) = EventStream ?s"
    using assms(1) by (rule POST_accepts)
  moreover have "delivered (drain stringify uuid now n ?s) =
             map (\<lambda>v. ''data: '' @ stringify (the v) @ [CHR 0x0A, CHR 0x0A]) (yields ?g) @
             [''data: [DONE]'' @ [CHR 0x0A, CHR 0x0A]]"
    using d m[OF assms(2)] f by simp
  moreover have "enqueued (drain stringify uuid now n ?s) = delivered (drain stringify uuid now n ?s)"
    using d by simp
  moreover have "queue (drain stringify uuid now n ?s) = []" "closed (drain stringify uuid now n ?s)"
    using d by simp_all
  ultimately show ?thesis by (intro exI[of _ ?s] conjI)
qed

theorem post_stream_forwards_events_witness:
  "\<exists>s. POST pipelineRequestSchema demo_event_pipeline demo_toNumber demo_stringify ''u1'' ''t1''
          (Inr demo_body) = EventStream s \<and>
       delivered (drain demo_stringify ''u1'' ''t1'' 3 s) =
         [''data: {title:a}'' @ [CHR 0x0A, CHR 0x0A], ''data: {title:b}'' @ [CHR 0x0A, CHR 0x0A],
          ''data: [DONE]'' @ [CHR 0x0A, CHR 0x0A]] \<and>
       enqueued (drain demo_stringify ''u1'' ''t1'' 3 s) =
         delivered (drain demo_stringify ''u1'' ''t1'' 3 s) \<and>
       queue (drain demo_stringify ''u1'' ''t1'' 3 s) = [] \<and>
       closed (drain demo_stringify ''u1'' ''t1'' 3 s)"
proof -
  obtain cfg where a: "pipelineRequestSchema (coerceBody demo_toNumber demo_body) = Inr cfg"
    using demo_body_accepted ..
  have v: "list_all (\<lambda>v. v \<noteq> None) (yields (demo_event_pipeline cfg))"
    by (simp add: demo_event_pipeline_def)
  have e: "ending (demo_event_pipeline cfg) = None" by (simp add: demo_event_pipeline_def)
  have l: "length (yields (demo_event_pipeline cfg)) < 3" by (simp add: demo_event_pipeline_def)
  have y: "map (\<lambda>v. ''data: '' @ demo_stringify (the v) @ [CHR 0x0A, CHR 0x0A])
             (yields (demo_event_pipeline cfg)) =
           [''data: {title:a}'' @ [CHR 0x0A, CHR 0x0A], ''data: {title:b}'' @ [CHR 0x0A, CHR 0x0A]]"
    by (simp add: demo_event_pipeline_def demo_stringify_def demo_event_def)
  show ?thesis
    using post_stream_forwards_events[where schema = pipelineRequestSchema
        and toNumber = demo_toNumber and js = demo_body and data = cfg
        and pipeline = demo_event_pipeline and n = 3 and stringify = demo_stringify
        and uuid = "''u1''" and now = "''t1''", OF a v e l]
    unfolding y by simp
qed



section \<open>Cancellation\<close>












section \<open>The unattended run\<close>

text \<open>
  Claim C4. For a run started through GET, the handler drives the generator to its end
  and answers with one document holding every yielded event in order and the flag
  \<open>ok\<close>. The flag is true with status 200 when the generator returns; when it
  throws, the document has \<open>ok\<close> false, status 500, the exception's message, and the
  events collected before the throw.
\<close>

theorem get_collects_all_events:
  assumes "deriveFromEnv schema toNumber env = Inr defaults"
  shows "GET schema pipeline toNumber env =
           Inr (JsonResponse (if ending (pipeline defaults) = None then 200 else 500)
                  (RunReport (ending (pipeline defaults) = None)
                     (map_option (\<lambda>x. error_message x ''Pipeline failed during cron execution'')
                        (ending (pipeline defaults)))
                     (yields (pipeline defaults))))"
  using assms by (cases "ending (pipeline defaults)") (simp_all add: GET_def for_await_eq Let_def)

theorem get_collects_all_events_witness:
  "GET pipelineRequestSchema demo_throwing_pipeline demo_toNumber demo_env =
     Inr (JsonResponse 500 (RunReport False (Some ''boom'') [Some (demo_event ''a'')])) \<and>
   GET pipelineRequestSchema demo_pipeline demo_toNumber demo_env =
     Inr (JsonResponse 200
            (RunReport True None [Some (demo_event ''a''), None, Some (demo_event ''b'')]))"
proof -
  have ev: "env_object demo_toNumber demo_env =
     \<lparr> openaiKey = Some ''sk-1'', elevenLabsKey = Some ''el-1'', pexelsKey = Some ''px-1'',
       youtubeClientId = Some ''id-1'', youtubeClientSecret = Some ''sec-1'',
       youtubeRefreshToken = Some ''ref-1'', voiceId = ''21m00Tcm4TlvDq8ikWAM'',
       videoTopic = ''Daily AI news recap'', targetDurationSeconds = Fin 120,
       uploadTitleTemplate = ''Daily AI Briefing - {{date}}'',
       uploadDescriptionTemplate = ''Automated summary for {{date}}.'',
       uploadTags = [], visibility = ''unlisted'', allowCopyrightAudio = False,
       preset = ''news'', webhookUrl = [], runContext = [], extraInstructions = [] \<rparr>"
    by (simp add: env_object_def demo_env_def or_else_def coerceNumber_def numeric_input_def
        isFinite_def gt0_def)
  obtain cfg where a: "deriveFromEnv pipelineRequestSchema demo_toNumber demo_env = Inr cfg"
    by (simp add: deriveFromEnv_def ev pipelineRequestSchema_def schema_defs)
  show ?thesis
    using get_collects_all_events[where schema = pipelineRequestSchema
        and toNumber = demo_toNumber and env = demo_env and defaults = cfg
        and pipeline = demo_throwing_pipeline, OF a]
      get_collects_all_events[where schema = pipelineRequestSchema
        and toNumber = demo_toNumber and env = demo_env and defaults = cfg
        and pipeline = demo_pipeline, OF a]
    by (simp add: demo_throwing_pipeline_def demo_pipeline_def error_message_def)
qed

section \<open>The Conductor's event sequence\<close>

lemma well_ended_iff:
  "well_ended g \<longleftrightarrow>
     (\<exists>pre t. truthy (yields g) = pre @ [t] \<and> is_terminal t \<and>
        (status t = Success \<or> status t = Error) \<and> list_all (\<lambda>e. \<not> is_terminal e) pre \<and>
        (ending g = None \<longleftrightarrow> status t = Success))"
proof (cases "truthy (yields g)" rule: rev_cases)
  case Nil
  then show ?thesis by (simp add: well_ended_def)
next
  case (snoc pre t)
  then show ?thesis by (simp add: well_ended_def list_all_iff)
qed

lemma well_ended_Invoke: "well_ended g \<Longrightarrow> well_ended (Invoke s g)"
  by (simp add: well_ended_iff)

lemma well_ended_Yield:
  assumes "well_ended g" and "\<not> is_terminal e"
  shows "well_ended (Yield (Some e) g)"
proof -
  from assms(1) obtain pre t where g: "truthy (yields g) = pre @ [t]"
    "is_terminal t" "status t = Success \<or> status t = Error"
    "list_all (\<lambda>e. \<not> is_terminal e) pre" "ending g = None \<longleftrightarrow> status t = Success"
    unfolding well_ended_iff by (elim exE conjE) (rule that, assumption+)
  have "truthy (yields (Yield (Some e) g)) = (e # pre) @ [t]"
    using g(1) by (simp add: truthy_Cons)
  moreover have "list_all (\<lambda>e. \<not> is_terminal e) (e # pre)" using g(4) assms(2) by simp
  moreover have "ending (Yield (Some e) g) = None \<longleftrightarrow> status t = Success" using g(5) by simp
  ultimately show ?thesis unfolding well_ended_iff using g(2,3)
    by (intro exI[of _ "e # pre"] exI[of _ t] conjI)
qed

lemma event_Some:
  "event sp k s ttl d m = Some \<lparr> id_str = event_id sp k, status = s, title = ttl, detail = d,
            timestamp = event_time sp k, meta = m \<rparr>"
  by (simp add: event_def)

lemma well_ended_event:
  "well_ended g \<Longrightarrow> s \<noteq> Success \<Longrightarrow> s \<noteq> Error \<Longrightarrow> well_ended (Yield (event sp k s ttl d m) g)"
  unfolding event_Some by (rule well_ended_Yield) (simp_all add: is_terminal_def)

lemma stage_name_Notify: "s \<noteq> NotifyStage \<Longrightarrow> stage_name s \<noteq> ''Notify''"
  by (cases s) simp_all

lemma well_ended_halt:
  assumes "s \<noteq> NotifyStage"
  shows "well_ended (halt sp k s f)"
proof -
  let ?e = "\<lparr> id_str = event_id sp k, status = Error, title = stage_name s,
      detail = Some (reason f), timestamp = event_time sp k,
      meta = Some [(''stage'', JStr (stage_name s)), (''failure'', JStr (kind_name (kind f)))] \<rparr>"
  have y: "truthy (yields (halt sp k s f)) = [] @ [?e]"
    by (simp add: halt_def stage_error_def event_Some truthy_Cons truthy_Nil)
  have t: "is_terminal ?e" using assms by (simp add: is_terminal_def stage_name_Notify)
  have e: "ending (halt sp k s f) = None \<longleftrightarrow> status ?e = Success"
    by (simp add: halt_def)
  show ?thesis unfolding well_ended_iff
    using y t e by (intro exI[of _ "[]"] exI[of _ ?e] conjI) simp_all
qed

lemma well_ended_finish: "well_ended (finish sp k pr)"
proof -
  let ?e = "\<lparr> id_str = event_id sp k, status = Success, title = ''Published'',
      detail = Some (video_url pr), timestamp = event_time sp k,
      meta = Some (publish_meta pr) \<rparr>"
  have y: "truthy (yields (finish sp k pr)) = [] @ [?e]"
    by (simp add: finish_def event_Some truthy_Cons truthy_Nil)
  have e: "ending (finish sp k pr) = None \<longleftrightarrow> status ?e = Success"
    by (simp add: finish_def)
  show ?thesis unfolding well_ended_iff
    using y e by (intro exI[of _ "[]"] exI[of _ ?e] conjI) (simp_all add: is_terminal_def)
qed

lemma well_ended_notify: "well_ended (notify_phase st sp cfg k pr)"
proof (cases "cfg_webhookUrl cfg = []")
  case True
  then show ?thesis by (simp add: notify_phase_def well_ended_finish)
next
  case False
  have e: "well_ended (Yield (stage_error sp (k + 1) NotifyStage f) (finish sp (k + 2) pr))" for f
    unfolding stage_error_def event_Some
    by (rule well_ended_Yield[OF well_ended_finish]) (simp add: is_terminal_def)
  have p: "well_ended (Yield (event sp (k + 1) Progress (stage_name NotifyStage) None None)
                         (finish sp (k + 2) pr))"
    by (rule well_ended_event[OF well_ended_finish]) simp_all
  have "well_ended (case notify_stage st cfg pr of
                Inl f \<Rightarrow> Yield (stage_error sp (k + 1) NotifyStage f) (finish sp (k + 2) pr)
              | Inr u \<Rightarrow>
                  Yield (event sp (k + 1) Progress (stage_name NotifyStage) None None)
                    (finish sp (k + 2) pr))"
    using e p by (simp split: sum.splits)
  then show ?thesis using False
    by (simp add: notify_phase_def well_ended_event well_ended_Invoke)
qed

lemma well_ended_publish: "well_ended (publish_phase st sp cfg k video)"
proof -
  have "well_ended (case publish_stage st cfg video of
             Inl f \<Rightarrow> halt sp (k + 1) PublishStage f
           | Inr pr \<Rightarrow> notify_phase st sp cfg (k + 1) pr)"
    by (simp add: well_ended_halt well_ended_notify split: sum.splits)
  then show ?thesis by (simp add: publish_phase_def well_ended_event well_ended_Invoke)
qed

lemma well_ended_render: "well_ended (render_phase st sp cfg k narration footage)"
proof -
  have "well_ended (case render_stage st cfg narration footage of
             Inl f \<Rightarrow> halt sp (k + 1) RenderStage f
           | Inr video \<Rightarrow>
               Yield (event sp (k + 1) Progress (stage_name RenderStage) None
                        (Some [(''duration'', JNum (Fin (render_seconds video)))]))
                 (publish_phase st sp cfg (k + 2) video))"
    by (simp add: well_ended_halt well_ended_publish well_ended_event split: sum.splits)
  then show ?thesis by (simp add: render_phase_def well_ended_event well_ended_Invoke)
qed

lemma well_ended_footage: "well_ended (footage_phase st sp cfg k script narration)"
proof -
  have "well_ended (case footage_stage st cfg script of
             Inl f \<Rightarrow> halt sp (k + 1) FootageStage f
           | Inr footage \<Rightarrow>
               Yield (event sp (k + 1) Progress (stage_name FootageStage) None
                        (Some [(''clips'', JNum (Fin (real (length (clips footage)))))]))
                 (render_phase st sp cfg (k + 2) narration footage))"
    by (simp add: well_ended_halt well_ended_render well_ended_event split: sum.splits)
  then show ?thesis by (simp add: footage_phase_def well_ended_event well_ended_Invoke)
qed

lemma well_ended_narration: "well_ended (narration_phase st sp cfg k script)"
proof -
  have "well_ended (case narration_stage st cfg script of
             Inl f \<Rightarrow> halt sp (k + 1) NarrationStage f
           | Inr narration \<Rightarrow>
               Yield (event sp (k + 1) Progress (stage_name NarrationStage) None
                        (Some [(''duration'', JNum (Fin (narration_seconds narration)))]))
                 (footage_phase st sp cfg (k + 2) script narration))"
    by (simp add: well_ended_halt well_ended_footage well_ended_event split: sum.splits)
  then show ?thesis by (simp add: narration_phase_def well_ended_event well_ended_Invoke)
qed

lemma well_ended_conductor: "well_ended (conductor st sp cfg)"
proof -
  have "well_ended (case script_stage st cfg of
             Inl f \<Rightarrow> halt sp 1 ScriptStage f
           | Inr script \<Rightarrow>
               Yield (event sp 1 Progress (stage_name ScriptStage) None
                        (Some [(''segments'', JNum (Fin (real (length (segments script)))))]))
                 (narration_phase st sp cfg 2 script))"
    by (simp add: well_ended_halt well_ended_narration well_ended_event split: sum.splits)
  then show ?thesis by (simp add: conductor_def well_ended_event well_ended_Invoke)
qed

text \<open>
  Claim C1. For every run configuration, stage behaviour and event stamps, the events of
  the Conductor's sequence are some events that are not terminal followed by exactly one
  terminal event, whose status is success or error; nothing follows it, and the sequence
  ends by returning exactly when that event is the success.
\<close>

theorem conductor_one_terminal_event:
  "\<exists>pre t. run_events st sp cfg = pre @ [t] \<and> is_terminal t \<and>
     (status t = Success \<or> status t = Error) \<and> list_all (\<lambda>e. \<not> is_terminal e) pre \<and>
     (ending (conductor st sp cfg) = None \<longleftrightarrow> status t = Success)"
  using well_ended_conductor[of st sp cfg] unfolding well_ended_iff run_events_def .

lemma truthy_event: "truthy (event sp k s ttl d m # vs) =
   \<lparr> id_str = event_id sp k, status = s, title = ttl, detail = d,
     timestamp = event_time sp k, meta = m \<rparr> # truthy vs"
  by (simp add: event_Some truthy_Cons)

text \<open>
  Claim C6. In a run where every stage up to Publish succeeds and the Notify stage, called
  because a webhook URL is set, fails, the last event is the terminal success event with the
  PublishResult in its metadata, directly preceded by a non-terminal event of status error
  that names Notify and carries the failure's reason; none of the ten events before it is
  an error or a success.
\<close>

theorem notify_failure_keeps_success:
  assumes "script_stage st cfg = Inr script"
    and "narration_stage st cfg script = Inr narration"
    and "footage_stage st cfg script = Inr footage"
    and "render_stage st cfg narration footage = Inr video"
    and "publish_stage st cfg video = Inr pr"
    and "cfg_webhookUrl cfg \<noteq> []"
    and "notify_stage st cfg pr = Inl f"
  shows "\<exists>pre ne t. run_events st sp cfg = pre @ [ne, t] \<and>
           status t = Success \<and> is_terminal t \<and> meta t = Some (publish_meta pr) \<and>
           status ne = Error \<and> \<not> is_terminal ne \<and> title ne = ''Notify'' \<and>
           detail ne = Some (reason f) \<and>
           list_all (\<lambda>e. status e \<noteq> Error \<and> status e \<noteq> Success) pre \<and>
           length pre = 10"
proof -
  let ?ne = "\<lparr> id_str = event_id sp 10, status = Error, title = ''Notify'',
      detail = Some (reason f), timestamp = event_time sp 10,
      meta = Some [(''stage'', JStr ''Notify''), (''failure'', JStr (kind_name (kind f)))] \<rparr>"
  let ?t = "\<lparr> id_str = event_id sp 11, status = Success, title = ''Published'',
      detail = Some (video_url pr), timestamp = event_time sp 11,
      meta = Some (publish_meta pr) \<rparr>"
  have n: "truthy (yields (notify_phase st sp cfg 9 pr)) =
      [\<lparr> id_str = event_id sp 9, status = Info, title = ''Notify'', detail = None,
         timestamp = event_time sp 9, meta = None \<rparr>, ?ne, ?t]"
    using assms(6,7)
    by (simp add: notify_phase_def finish_def stage_error_def truthy_event truthy_Nil)
  have p: "truthy (yields (publish_phase st sp cfg 8 video)) =
      \<lparr> id_str = event_id sp 8, status = Uploading, title = ''Publish'', detail = None,
         timestamp = event_time sp 8, meta = None \<rparr> # truthy (yields (notify_phase st sp cfg 9 pr))"
    using assms(5) by (simp add: publish_phase_def truthy_event)
  have r: "\<exists>a b. truthy (yields (render_phase st sp cfg 6 narration footage)) =
      a # b # truthy (yields (publish_phase st sp cfg 8 video)) \<and>
      status a = Info \<and> status b = Progress"
    using assms(4) by (simp add: render_phase_def truthy_event)
  have fo: "\<exists>a b. truthy (yields (footage_phase st sp cfg 4 script narration)) =
      a # b # truthy (yields (render_phase st sp cfg 6 narration footage)) \<and>
      status a = Info \<and> status b = Progress"
    using assms(3) by (simp add: footage_phase_def truthy_event)
  have na: "\<exists>a b. truthy (yields (narration_phase st sp cfg 2 script)) =
      a # b # truthy (yields (footage_phase st sp cfg 4 script narration)) \<and>
      status a = Info \<and> status b = Progress"
    using assms(2) by (simp add: narration_phase_def truthy_event)
  have sc: "\<exists>a b. run_events st sp cfg =
      a # b # truthy (yields (narration_phase st sp cfg 2 script)) \<and>
      status a = Info \<and> status b = Progress"
    using assms(1) by (simp add: run_events_def conductor_def truthy_event)
  from sc na fo r obtain a1 b1 a2 b2 a3 b3 a4 b4 where
    ev: "run_events st sp cfg =
       [a1, b1, a2, b2, a3, b3, a4, b4] @ truthy (yields (publish_phase st sp cfg 8 video))"
    and st: "status a1 = Info" "status b1 = Progress" "status a2 = Info" "status b2 = Progress"
      "status a3 = Info" "status b3 = Progress" "status a4 = Info" "status b4 = Progress"
    by auto
  let ?pre = "[a1, b1, a2, b2, a3, b3, a4, b4,
      \<lparr> id_str = event_id sp 8, status = Uploading, title = ''Publish'', detail = None,
         timestamp = event_time sp 8, meta = None \<rparr>,
      \<lparr> id_str = event_id sp 9, status = Info, title = ''Notify'', detail = None,
         timestamp = event_time sp 9, meta = None \<rparr>]"
  have "run_events st sp cfg = ?pre @ [?ne, ?t]" using ev p n by simp
  moreover have "list_all (\<lambda>e. status e \<noteq> Error \<and> status e \<noteq> Success) ?pre"
    using st by simp
  ultimately show ?thesis
    by (intro exI[of _ ?pre] exI[of _ ?ne] exI[of _ ?t]) (simp add: is_terminal_def)
qed

theorem notify_failure_keeps_success_witness:
  "\<exists>pre ne t. run_events demo_stages demo_stamps demo_config = pre @ [ne, t] \<and>
           status t = Success \<and> is_terminal t \<and> meta t = Some (publish_meta demo_result) \<and>
           status ne = Error \<and> \<not> is_terminal ne \<and> title ne = ''Notify'' \<and>
           detail ne = Some ''webhook 500'' \<and>
           list_all (\<lambda>e. status e \<noteq> Error \<and> status e \<noteq> Success) pre \<and>
           length pre = 10"
  using notify_failure_keeps_success[where st = demo_stages and cfg = demo_config
      and sp = demo_stamps and pr = demo_result
      and script = "\<lparr> segments = [(''Hello'', 60)] \<rparr>"
      and narration = "\<lparr> audio = ''blob:a'', narration_seconds = 60 \<rparr>"
      and footage = "\<lparr> clips = [(''clip1'', 60, 1080)] \<rparr>"
      and video = "\<lparr> media = ''blob:v'', render_seconds = 60 \<rparr>"
      and f = "\<lparr> kind = NotifyFailure, reason = ''webhook 500'' \<rparr>"]
  by (simp add: demo_stages_def demo_config_def)

section \<open>Template expansion\<close>








lemma decimal_not_Nil: "decimal n \<noteq> []"
  by (subst decimal.simps) simp








section \<open>Normalization of the enumerated and numeric request fields\<close>

text \<open>
  Claim C10 as stated fails on padded and on numeric strings: a visibility
  \<^verbatim>\<open>" private "\<close> is not one of the three enumerated strings, yet
  \<^verbatim>\<open>coerceBody\<close> trims it and keeps \<^verbatim>\<open>"private"\<close> instead of falling back to
  \<^verbatim>\<open>"unlisted"\<close>; a preset \<^verbatim>\<open>" facts "\<close> is kept as \<^verbatim>\<open>"facts"\<close>
  likewise; and the string \<^verbatim>\<open>"90"\<close>, which is not a number, becomes the duration 90
  and not 120.
\<close>

lemma trim_padded_facts: "trim '' facts '' = ''facts''"
proof -
  have 1: "strip white_space '' facts '' = ''facts ''"
    by (subst strip_some[where w = "'' ''"])
      (simp_all add: leading_def white_space_def strip_none leading_none_hd)
  have 2: "strip (map rev white_space) (rev ''facts '') = rev ''facts''"
    by (subst strip_some[where w = "'' ''"])
      (simp_all add: leading_def white_space_def strip_none leading_none_hd)
  show ?thesis by (simp only: trim_def 1 2 rev_rev_ident)
qed

theorem coerceBody_padded_enum_counterexample:
  "get_prop padded_body ''visibility'' = Some (JStr '' private '') \<and>
   '' private '' \<notin> set visibilities \<and>
   visibility (coerceBody demo_toNumber padded_body) = ''private'' \<and>
   get_prop padded_body ''preset'' = Some (JStr '' facts '') \<and>
   '' facts '' \<notin> set presets \<and>
   preset (coerceBody demo_toNumber padded_body) = ''facts'' \<and>
   get_prop padded_body ''targetDurationSeconds'' = Some (JStr ''90'') \<and>
   targetDurationSeconds (coerceBody demo_toNumber padded_body) = Fin 90"
  by (simp add: padded_body_def coerce_defs visibilities_def presets_def trim_padded_private
      trim_padded_facts demo_toNumber_def)

lemma coerced_visibility:
  "visibility (coerceBody toNumber body) =
     (case tr (get_prop body ''visibility'') of
        Some v \<Rightarrow> if v \<in> set visibilities then v else ''unlisted''
      | None \<Rightarrow> ''unlisted'')"
  by (cases "tr (get_prop body ''visibility'')")
    (simp_all add: coerceBody_def Let_def or_else_def visibilities_def disj_commute disj_left_commute)

lemma coerced_preset:
  "preset (coerceBody toNumber body) =
     (case tr (get_prop body ''preset'') of
        Some v \<Rightarrow> if v \<in> set presets then v else ''news''
      | None \<Rightarrow> ''news'')"
proof (cases "tr (get_prop body ''preset'')")
  case None
  then show ?thesis by (simp add: coerceBody_def Let_def)
next
  case (Some v)
  show ?thesis
  proof (cases "v = ''news''")
    case True
    then show ?thesis using Some by (simp add: coerceBody_def Let_def or_else_def presets_def)
  next
    case False
    then show ?thesis using Some by (simp add: coerceBody_def Let_def or_else_def presets_def)
  qed
qed

lemma coerced_duration:
  "targetDurationSeconds (coerceBody toNumber body) =
     coerceNumber toNumber (get_prop body ''targetDurationSeconds'') (Fin 120)"
  by (simp add: coerceBody_def Let_def)

lemma coerced_fields_pass:
  "isFinite (targetDurationSeconds (coerceBody toNumber body)) \<and>
   gt0 (targetDurationSeconds (coerceBody toNumber body)) \<and>
   visibility (coerceBody toNumber body) \<in> set visibilities \<and>
   preset (coerceBody toNumber body) \<in> set presets"
  unfolding coerced_visibility coerced_preset coerced_duration
  by (simp add: coerceNumber_def Let_def isFinite_def gt0_def visibilities_def presets_def
      split: option.splits)

lemma schema_accepts_iff: "isl (pipelineRequestSchema r) \<longleftrightarrow> schema_issues r \<noteq> []"
  by (simp add: pipelineRequestSchema_def split: list.splits)

lemma coerced_issues:
  "schema_issues (coerceBody toNumber body) =
     required ''openaiKey'' (tr (get_prop body ''openaiKey'')) @
     required ''elevenLabsKey'' (tr (get_prop body ''elevenLabsKey'')) @
     required ''pexelsKey'' (tr (get_prop body ''pexelsKey'')) @
     required ''youtubeClientId'' (tr (get_prop body ''youtubeClientId'')) @
     required ''youtubeClientSecret'' (tr (get_prop body ''youtubeClientSecret'')) @
     required ''youtubeRefreshToken'' (tr (get_prop body ''youtubeRefreshToken'')) @
     (if list_all is_string (uploadTags (coerceBody toNumber body)) then []
      else [field_issue ''uploadTags'' ''Expected string''])"
proof -
  note p = coerced_fields_pass[of toNumber body]
  have "duration_issues (coerceBody toNumber body) = []"
    "visibility_issues (coerceBody toNumber body) = []"
    "preset_issues (coerceBody toNumber body) = []"
    using p by (simp_all add: duration_issues_def visibility_issues_def preset_issues_def)
  then show ?thesis by (simp add: schema_issues_def) (simp add: coerceBody_def Let_def)
qed

lemma coerced_tags:
  "uploadTags (coerceBody toNumber body) =
     (case get_prop body ''uploadTags'' of
        Some (JArr xs) \<Rightarrow> xs
      | Some (JStr s) \<Rightarrow> map (\<lambda>tag. JStr (trim tag)) (split_delims s)
      | _ \<Rightarrow> [])"
  by (simp add: coerceBody_def Let_def)

text \<open>
  Claim C10, amended. For every interactive POST body, coerceBody normalizes instead of
  rejecting the enumerated and numeric fields: a visibility whose trimmed string value is
  outside public, unlisted and private becomes unlisted, a preset whose trimmed string
  value is outside news, facts and longform becomes news, and a targetDurationSeconds
  whose numeric value (the number, or \<^verbatim>\<open>Number\<close> of a string) is not finite and
  greater than zero becomes 120. So the RunConfig handed to the pipeline always has a
  finite positive targetDurationSeconds, and these three fields alone never cause a 422:
  a body that differs from another in these three properties only is rejected exactly
  when the other is.
\<close>

theorem coerceBody_normalizes_fields:
  "visibility (coerceBody toNumber body) =
     (case tr (get_prop body ''visibility'') of
        Some v \<Rightarrow> if v \<in> set visibilities then v else ''unlisted''
      | None \<Rightarrow> ''unlisted'') \<and>
   preset (coerceBody toNumber body) =
     (case tr (get_prop body ''preset'') of
        Some v \<Rightarrow> if v \<in> set presets then v else ''news''
      | None \<Rightarrow> ''news'') \<and>
   (\<not> (isFinite (numeric_input toNumber (get_prop body ''targetDurationSeconds'')) \<and>
        gt0 (numeric_input toNumber (get_prop body ''targetDurationSeconds''))) \<longrightarrow>
      targetDurationSeconds (coerceBody toNumber body) = Fin 120) \<and>
   (pipelineRequestSchema (coerceBody toNumber body) = Inr data \<longrightarrow>
      POST pipelineRequestSchema pipeline toNumber stringify uuid now (Inr body) =
        EventStream (open_stream stringify uuid now (pipeline data)) \<and>
      0 < cfg_targetDurationSeconds data \<and>
      Fin (cfg_targetDurationSeconds data) = targetDurationSeconds (coerceBody toNumber body) \<and>
      cfg_visibility data \<in> set visibilities \<and> cfg_preset data \<in> set presets) \<and>
   ((\<forall>k. k \<noteq> ''visibility'' \<and> k \<noteq> ''preset'' \<and> k \<noteq> ''targetDurationSeconds'' \<longrightarrow>
         get_prop other k = get_prop body k) \<longrightarrow>
      (\<exists>issues. POST pipelineRequestSchema pipeline toNumber stringify uuid now (Inr other) =
                  JsonResponse 422 (InvalidPayload ''Invalid payload'' issues)) =
      (\<exists>issues. POST pipelineRequestSchema pipeline toNumber stringify uuid now (Inr body) =
                  JsonResponse 422 (InvalidPayload ''Invalid payload'' issues)))"
proof -
  let ?r = "coerceBody toNumber body"
  note p = coerced_fields_pass[of toNumber body]
  have d1: "\<not> (isFinite (numeric_input toNumber (get_prop body ''targetDurationSeconds'')) \<and>
        gt0 (numeric_input toNumber (get_prop body ''targetDurationSeconds''))) \<longrightarrow>
      targetDurationSeconds ?r = Fin 120"
    unfolding coerced_duration by (simp add: coerceNumber_def Let_def)
  have acc: "pipelineRequestSchema ?r = Inr data \<longrightarrow>
      POST pipelineRequestSchema pipeline toNumber stringify uuid now (Inr body) =
        EventStream (open_stream stringify uuid now (pipeline data)) \<and>
      0 < cfg_targetDurationSeconds data \<and>
      Fin (cfg_targetDurationSeconds data) = targetDurationSeconds ?r \<and>
      cfg_visibility data \<in> set visibilities \<and> cfg_preset data \<in> set presets"
  proof
    assume a: "pipelineRequestSchema ?r = Inr data"
    then have f: "cfg_targetDurationSeconds data = number_of (targetDurationSeconds ?r)"
      "cfg_visibility data = visibility ?r" "cfg_preset data = preset ?r"
      by (auto simp: pipelineRequestSchema_def split: list.splits)
    obtain x where x: "targetDurationSeconds ?r = Fin x" "0 < x"
      using p by (cases "targetDurationSeconds ?r") (simp_all add: isFinite_def gt0_def)
    show "POST pipelineRequestSchema pipeline toNumber stringify uuid now (Inr body) =
        EventStream (open_stream stringify uuid now (pipeline data)) \<and>
      0 < cfg_targetDurationSeconds data \<and>
      Fin (cfg_targetDurationSeconds data) = targetDurationSeconds ?r \<and>
      cfg_visibility data \<in> set visibilities \<and> cfg_preset data \<in> set presets"
      using POST_accepts[where schema = pipelineRequestSchema and toNumber = toNumber
          and js = body and data = data and pipeline = pipeline, OF a] f x p
      by (simp add: number_of_def)
  qed
  have rej: "(\<exists>issues. POST pipelineRequestSchema pipeline toNumber stringify uuid now (Inr b) =
                  JsonResponse 422 (InvalidPayload ''Invalid payload'' issues)) =
             (schema_issues (coerceBody toNumber b) \<noteq> [])" for b
    by (cases "pipelineRequestSchema (coerceBody toNumber b)")
      (simp_all add: POST_def schema_accepts_iff[symmetric])
  have same: "schema_issues (coerceBody toNumber other) = schema_issues ?r"
    if h: "\<forall>k. k \<noteq> ''visibility'' \<and> k \<noteq> ''preset'' \<and> k \<noteq> ''targetDurationSeconds'' \<longrightarrow>
         get_prop other k = get_prop body k"
  proof -
    have g: "get_prop other ''openaiKey'' = get_prop body ''openaiKey''"
      "get_prop other ''elevenLabsKey'' = get_prop body ''elevenLabsKey''"
      "get_prop other ''pexelsKey'' = get_prop body ''pexelsKey''"
      "get_prop other ''youtubeClientId'' = get_prop body ''youtubeClientId''"
      "get_prop other ''youtubeClientSecret'' = get_prop body ''youtubeClientSecret''"
      "get_prop other ''youtubeRefreshToken'' = get_prop body ''youtubeRefreshToken''"
      "get_prop other ''uploadTags'' = get_prop body ''uploadTags''"
      using h by simp_all
    show ?thesis unfolding coerced_issues coerced_tags g by (rule refl)
  qed
  show ?thesis
    using coerced_visibility[of toNumber body] coerced_preset[of toNumber body] d1 acc same
    unfolding rej by (intro conjI impI) simp_all
qed

theorem coerceBody_normalizes_fields_witness:
  "\<not> (isFinite (numeric_input demo_toNumber (get_prop odd_body ''targetDurationSeconds'')) \<and>
       gt0 (numeric_input demo_toNumber (get_prop odd_body ''targetDurationSeconds''))) \<and>
   targetDurationSeconds (coerceBody demo_toNumber odd_body) = Fin 120 \<and>
   visibility (coerceBody demo_toNumber odd_body) = ''unlisted'' \<and>
   preset (coerceBody demo_toNumber odd_body) = ''news'' \<and>
   pipelineRequestSchema (coerceBody demo_toNumber odd_body) = Inr odd_config \<and>
   POST pipelineRequestSchema demo_pipeline demo_toNumber demo_stringify ''u1'' ''t1''
       (Inr odd_body) =
     EventStream (open_stream demo_stringify ''u1'' ''t1'' (demo_pipeline odd_config)) \<and>
   cfg_targetDurationSeconds odd_config = 120 \<and>
   (\<exists>issues. POST pipelineRequestSchema demo_pipeline demo_toNumber demo_stringify ''u1'' ''t1''
                (Inr demo_body) =
              JsonResponse 422 (InvalidPayload ''Invalid payload'' issues)) =
   (\<exists>issues. POST pipelineRequestSchema demo_pipeline demo_toNumber demo_stringify ''u1'' ''t1''
                (Inr odd_body) =
              JsonResponse 422 (InvalidPayload ''Invalid payload'' issues))"
proof -
  have n: "\<not> (isFinite (numeric_input demo_toNumber (get_prop odd_body ''targetDurationSeconds'')) \<and>
       gt0 (numeric_input demo_toNumber (get_prop odd_body ''targetDurationSeconds'')))"
    by (simp add: odd_body_def get_prop_def numeric_input_def isFinite_def gt0_def)
  have tv: "tr (get_prop odd_body ''visibility'') = Some ''hidden''"
    by (simp add: odd_body_def get_prop_def tr_def trim_plain ws_edge)
  have tp: "tr (get_prop odd_body ''preset'') = None"
    by (simp add: odd_body_def get_prop_def tr_def)
  have c: "coerceBody demo_toNumber odd_body =
     \<lparr> openaiKey = Some ''sk-1'', elevenLabsKey = Some ''el-1'', pexelsKey = Some ''px-1'',
       youtubeClientId = Some ''id-1'', youtubeClientSecret = Some ''sec-1'',
       youtubeRefreshToken = Some ''ref-1'', voiceId = ''21m00Tcm4TlvDq8ikWAM'',
       videoTopic = ''Daily AI news round-up'', targetDurationSeconds = Fin 120,
       uploadTitleTemplate = ''Daily AI Highlights - {{date}}'',
       uploadDescriptionTemplate = ''Automated AI news for {{date}}.'',
       uploadTags = [], visibility = ''unlisted'', allowCopyrightAudio = False,
       preset = ''news'', webhookUrl = [], runContext = [], extraInstructions = [] \<rparr>"
    by (simp add: coerce_defs odd_body_def trim_plain ws_edge)
  have a: "pipelineRequestSchema (coerceBody demo_toNumber odd_body) = Inr odd_config"
    unfolding c by (simp add: pipelineRequestSchema_def schema_defs odd_config_def or_else_def
        number_of_def)
  have k: "\<forall>k. k \<noteq> ''visibility'' \<and> k \<noteq> ''preset'' \<and> k \<noteq> ''targetDurationSeconds'' \<longrightarrow>
         get_prop demo_body k = get_prop odd_body k"
    by (simp add: demo_body_def odd_body_def get_prop_def)
  note t = coerceBody_normalizes_fields[where toNumber = demo_toNumber and body = odd_body
      and data = odd_config and pipeline = demo_pipeline and stringify = demo_stringify
      and uuid = "''u1''" and now = "''t1''" and other = demo_body]
  have 1: "targetDurationSeconds (coerceBody demo_toNumber odd_body) = Fin 120"
    using t[THEN conjunct2, THEN conjunct2, THEN conjunct1, THEN mp, OF n] .
  have 2: "visibility (coerceBody demo_toNumber odd_body) = ''unlisted''"
    using t[THEN conjunct1] by (simp add: tv visibilities_def)
  have 3: "preset (coerceBody demo_toNumber odd_body) = ''news''"
    using t[THEN conjunct2, THEN conjunct1] by (simp add: tp)
  note 4 = t[THEN conjunct2, THEN conjunct2, THEN conjunct2, THEN conjunct1, THEN mp, OF a]
  note 5 = t[THEN conjunct2, THEN conjunct2, THEN conjunct2, THEN conjunct2, THEN mp, OF k]
  have 6: "cfg_targetDurationSeconds odd_config = 120" by (simp add: odd_config_def)
  show ?thesis using n 1 2 3 a 4[THEN conjunct1] 6 5
    by (intro conjI) (simp_all only: simp_thms)
qed

section \<open>The two construction paths\<close>

lemma split_char_not_Nil: "split_char c s \<noteq> []"
  by (induction s) (auto split: list.splits)

lemma split_delims_eq_split_char:
  "CHR 0x0A \<notin> set s \<Longrightarrow> [] \<notin> set (tl (split_char CHR '','' s)) \<Longrightarrow>
   split_delims s = split_char CHR '','' s"
proof (induction s)
  case Nil
  then show ?case by simp
next
  case (Cons x xs)
  have nl: "CHR 0x0A \<notin> set xs" using Cons.prems(1) by simp
  show ?case
  proof (cases "x = CHR '',''")
    case True
    then have ne: "[] \<notin> set (split_char CHR '','' xs)" using Cons.prems(2) by simp
    have "xs \<noteq> []" using ne by (cases xs) auto
    moreover have "hd xs \<noteq> CHR '',''" using ne \<open>xs \<noteq> []\<close> by (cases xs) auto
    ultimately have dw: "dropWhile is_delim xs = xs"
      using nl by (cases xs) (auto simp: is_delim_def)
    have "[] \<notin> set (tl (split_char CHR '','' xs))"
      using ne list.set_sel(2)[OF split_char_not_Nil, of _ "CHR '',''" xs] by blast
    then have "split_delims xs = split_char CHR '','' xs" using Cons.IH nl by simp
    then show ?thesis using True dw by (simp add: is_delim_def)
  next
    case False
    obtain p ps where pp: "split_char CHR '','' xs = p # ps"
      using split_char_not_Nil[of "CHR '',''" xs] by (cases "split_char CHR '','' xs") auto
    have "[] \<notin> set ps" using Cons.prems(2) False pp by simp
    then have "[] \<notin> set (tl (split_char CHR '','' xs))" using pp by simp
    then have "split_delims xs = split_char CHR '','' xs" using Cons.IH nl by simp
    moreover have "\<not> is_delim x" using False Cons.prems(1) by (auto simp: is_delim_def)
    ultimately show ?thesis using False pp by simp
  qed
qed

lemma tags_agree:
  assumes "CHR 0x0A \<notin> set s" and "[] \<notin> set (map trim (split_char CHR '','' s))"
  shows "map (\<lambda>tag. JStr (trim tag)) (split_delims s) =
         map JStr (filter (\<lambda>tag. tag \<noteq> []) (map trim (split_char CHR '','' s)))"
proof -
  have "[] \<notin> set (split_char CHR '','' s)"
  proof
    assume "[] \<in> set (split_char CHR '','' s)"
    then have "trim [] \<in> set (map trim (split_char CHR '','' s))" by force
    then show False using assms(2) by (simp add: trim_Nil)
  qed
  then have "[] \<notin> set (tl (split_char CHR '','' s))"
    using list.set_sel(2)[OF split_char_not_Nil, of _ "CHR '',''" s] by blast
  then have e: "split_delims s = split_char CHR '','' s"
    using assms(1) by (rule split_delims_eq_split_char[rotated])
  have "filter (\<lambda>tag. tag \<noteq> []) (map trim (split_char CHR '','' s)) = map trim (split_char CHR '','' s)"
    using assms(2) by (force simp: filter_id_conv)
  then show ?thesis using e by simp
qed

lemma tr_plain_nonempty:
  "plain_nonempty v \<Longrightarrow> tr (map_option JStr v) = v"
  by (cases v) (auto simp: plain_nonempty_def tr_def Let_def)

lemma tr_plain:
  "plain v \<Longrightarrow> or_else (tr (map_option JStr v)) [] = or_else v []"
  by (cases v) (auto simp: plain_def tr_def Let_def or_else_def)

lemma tr_literal:
  "tr (Some (JStr ''public'')) = Some ''public''"
  "tr (Some (JStr ''unlisted'')) = Some ''unlisted''"
  "tr (Some (JStr ''private'')) = Some ''private''"
  "tr (Some (JStr ''news'')) = Some ''news''"
  "tr (Some (JStr ''facts'')) = Some ''facts''"
  "tr (Some (JStr ''longform'')) = Some ''longform''"
  by (simp_all add: tr_def trim_plain ws_edge)

lemma same_raw_get:
  "same_raw env body \<Longrightarrow> (k, var) \<in> set env_keys \<Longrightarrow> get_prop body k = map_option JStr (env var)"
  by (auto simp: same_raw_def list_all_iff)

lemma path_objects_agree:
  assumes a: "aligned env" and s: "same_raw env body"
  shows "coerceBody toNumber body = env_object toNumber env"
proof -
  note g = same_raw_get[OF s]
  have k1: "tr (get_prop body ''openaiKey'') = env ''OPENAI_API_KEY''"
    using a by (subst g[of _ "''OPENAI_API_KEY''"]) (simp_all add: env_keys_def aligned_def tr_plain_nonempty)
  have k2: "tr (get_prop body ''elevenLabsKey'') = env ''ELEVENLABS_API_KEY''"
    using a by (subst g[of _ "''ELEVENLABS_API_KEY''"]) (simp_all add: env_keys_def aligned_def tr_plain_nonempty)
  have k3: "tr (get_prop body ''pexelsKey'') = env ''PEXELS_API_KEY''"
    using a by (subst g[of _ "''PEXELS_API_KEY''"]) (simp_all add: env_keys_def aligned_def tr_plain_nonempty)
  have k4: "tr (get_prop body ''youtubeClientId'') = env ''YOUTUBE_CLIENT_ID''"
    using a by (subst g[of _ "''YOUTUBE_CLIENT_ID''"]) (simp_all add: env_keys_def aligned_def tr_plain_nonempty)
  have k5: "tr (get_prop body ''youtubeClientSecret'') = env ''YOUTUBE_CLIENT_SECRET''"
    using a by (subst g[of _ "''YOUTUBE_CLIENT_SECRET''"]) (simp_all add: env_keys_def aligned_def tr_plain_nonempty)
  have k6: "tr (get_prop body ''youtubeRefreshToken'') = env ''YOUTUBE_REFRESH_TOKEN''"
    using a by (subst g[of _ "''YOUTUBE_REFRESH_TOKEN''"]) (simp_all add: env_keys_def aligned_def tr_plain_nonempty)
  have vo: "tr (get_prop body ''voiceId'') = env ''PIPELINE_VOICE_ID''"
    using a by (subst g[of _ "''PIPELINE_VOICE_ID''"]) (simp_all add: env_keys_def aligned_def tr_plain_nonempty)
  have to: "tr (get_prop body ''videoTopic'') = env ''PIPELINE_DEFAULT_TOPIC''"
    using a by (subst g[of _ "''PIPELINE_DEFAULT_TOPIC''"]) (simp_all add: env_keys_def aligned_def tr_plain_nonempty)
  have ti: "tr (get_prop body ''uploadTitleTemplate'') = env ''PIPELINE_UPLOAD_TITLE_TEMPLATE''"
    using a by (subst g[of _ "''PIPELINE_UPLOAD_TITLE_TEMPLATE''"]) (simp_all add: env_keys_def aligned_def tr_plain_nonempty)
  have de: "tr (get_prop body ''uploadDescriptionTemplate'') = env ''PIPELINE_UPLOAD_DESCRIPTION_TEMPLATE''"
    using a by (subst g[of _ "''PIPELINE_UPLOAD_DESCRIPTION_TEMPLATE''"]) (simp_all add: env_keys_def aligned_def tr_plain_nonempty)
  have set3: "env ''PIPELINE_DEFAULT_TOPIC'' \<noteq> None" "env ''PIPELINE_UPLOAD_TITLE_TEMPLATE'' \<noteq> None"
    "env ''PIPELINE_UPLOAD_DESCRIPTION_TEMPLATE'' \<noteq> None"
    using a by (simp_all add: aligned_def)
  have to': "or_else (tr (get_prop body ''videoTopic'')) ''Daily AI news round-up'' =
             or_else (env ''PIPELINE_DEFAULT_TOPIC'') ''Daily AI news recap''"
    using set3(1) unfolding to by (cases "env ''PIPELINE_DEFAULT_TOPIC''") (simp_all add: or_else_def)
  have ti': "or_else (tr (get_prop body ''uploadTitleTemplate'')) ''Daily AI Highlights - {{date}}'' =
             or_else (env ''PIPELINE_UPLOAD_TITLE_TEMPLATE'') ''Daily AI Briefing - {{date}}''"
    using set3(2) unfolding ti by (cases "env ''PIPELINE_UPLOAD_TITLE_TEMPLATE''") (simp_all add: or_else_def)
  have de': "or_else (tr (get_prop body ''uploadDescriptionTemplate'')) ''Automated AI news for {{date}}.'' =
             or_else (env ''PIPELINE_UPLOAD_DESCRIPTION_TEMPLATE'') ''Automated summary for {{date}}.''"
    using set3(3) unfolding de by (cases "env ''PIPELINE_UPLOAD_DESCRIPTION_TEMPLATE''") (simp_all add: or_else_def)
  have we: "or_else (tr (get_prop body ''webhookUrl'')) [] = or_else (env ''PIPELINE_WEBHOOK_URL'') []"
    using a by (subst g[of _ "''PIPELINE_WEBHOOK_URL''"]) (simp_all add: env_keys_def aligned_def tr_plain)
  have rc: "or_else (tr (get_prop body ''runContext'')) [] = or_else (env ''PIPELINE_RUN_CONTEXT'') []"
    using a by (subst g[of _ "''PIPELINE_RUN_CONTEXT''"]) (simp_all add: env_keys_def aligned_def tr_plain)
  have ex: "or_else (tr (get_prop body ''extraInstructions'')) [] = or_else (env ''PIPELINE_EXTRA_INSTRUCTIONS'') []"
    using a by (subst g[of _ "''PIPELINE_EXTRA_INSTRUCTIONS''"]) (simp_all add: env_keys_def aligned_def tr_plain)
  have du: "get_prop body ''targetDurationSeconds'' = map_option JStr (env ''PIPELINE_TARGET_DURATION'')"
    by (rule g) (simp add: env_keys_def)
  have gv: "get_prop body ''visibility'' = map_option JStr (env ''PIPELINE_UPLOAD_VISIBILITY'')"
    by (rule g) (simp add: env_keys_def)
  have vi: "(if tr (get_prop body ''visibility'') = Some ''private'' \<or>
                 tr (get_prop body ''visibility'') = Some ''public'' \<or>
                 tr (get_prop body ''visibility'') = Some ''unlisted''
              then or_else (tr (get_prop body ''visibility'')) ''unlisted''
              else ''unlisted'') = or_else (env ''PIPELINE_UPLOAD_VISIBILITY'') ''unlisted''"
  proof (cases "env ''PIPELINE_UPLOAD_VISIBILITY''")
    case None
    then show ?thesis unfolding gv by (simp add: tr_def or_else_def)
  next
    case (Some v)
    then have "v \<in> set visibilities" using a by (simp add: aligned_def)
    then have "v = ''public'' \<or> v = ''unlisted'' \<or> v = ''private''"
      by (simp add: visibilities_def)
    then show ?thesis unfolding gv Some
      by (elim disjE) (simp_all add: tr_literal or_else_def)
  qed
  have gp: "get_prop body ''preset'' = map_option JStr (env ''PIPELINE_PRESET'')"
    by (rule g) (simp add: env_keys_def)
  have pr: "(if tr (get_prop body ''preset'') = Some ''facts'' \<or>
                 tr (get_prop body ''preset'') = Some ''longform''
              then or_else (tr (get_prop body ''preset'')) ''news''
              else ''news'') = or_else (env ''PIPELINE_PRESET'') ''news''"
  proof (cases "env ''PIPELINE_PRESET''")
    case None
    then show ?thesis unfolding gp by (simp add: tr_def or_else_def)
  next
    case (Some v)
    then have "v \<in> set presets" using a by (simp add: aligned_def)
    then have "v = ''news'' \<or> v = ''facts'' \<or> v = ''longform''"
      by (simp add: presets_def)
    then show ?thesis unfolding gp Some
      by (elim disjE) (simp_all add: tr_literal or_else_def)
  qed
  have gf: "get_prop body ''allowCopyrightAudio'' = map_option JStr (env ''PIPELINE_ALLOW_COPY_AUDIO'')"
    by (rule g) (simp add: env_keys_def)
  have fl: "to_boolean (get_prop body ''allowCopyrightAudio'') =
            (env ''PIPELINE_ALLOW_COPY_AUDIO'' = Some ''true'')"
    using a unfolding gf
    by (cases "env ''PIPELINE_ALLOW_COPY_AUDIO''") (simp_all add: aligned_def to_boolean_def)
  have gt: "get_prop body ''uploadTags'' = map_option JStr (env ''PIPELINE_UPLOAD_TAGS'')"
    by (rule g) (simp add: env_keys_def)
  have ta: "(case get_prop body ''uploadTags'' of
                    Some (JArr xs) \<Rightarrow> xs
                  | Some (JStr s) \<Rightarrow> map (\<lambda>tag. JStr (trim tag)) (split_delims s)
                  | _ \<Rightarrow> []) =
            map JStr (case env ''PIPELINE_UPLOAD_TAGS'' of
                    Some s \<Rightarrow> filter (\<lambda>tag. tag \<noteq> []) (map trim (split_char CHR '','' s))
                  | None \<Rightarrow> [])"
  proof (cases "env ''PIPELINE_UPLOAD_TAGS''")
    case None
    then show ?thesis unfolding gt by simp
  next
    case (Some s)
    then have "CHR 0x0A \<notin> set s" "[] \<notin> set (map trim (split_char CHR '','' s))"
      using a by (simp_all add: aligned_def)
    then show ?thesis unfolding gt Some by (simp add: tags_agree)
  qed
  show ?thesis
    unfolding coerceBody_def env_object_def Let_def k1 k2 k3 k4 k5 k6 vo to' ti' de' we rc ex du vi pr fl ta
    by (rule refl)
qed

lemma demo_env_object:
  "env_object demo_toNumber demo_env =
     \<lparr> openaiKey = Some ''sk-1'', elevenLabsKey = Some ''el-1'', pexelsKey = Some ''px-1'',
       youtubeClientId = Some ''id-1'', youtubeClientSecret = Some ''sec-1'',
       youtubeRefreshToken = Some ''ref-1'', voiceId = ''21m00Tcm4TlvDq8ikWAM'',
       videoTopic = ''Daily AI news recap'', targetDurationSeconds = Fin 120,
       uploadTitleTemplate = ''Daily AI Briefing - {{date}}'',
       uploadDescriptionTemplate = ''Automated summary for {{date}}.'',
       uploadTags = [], visibility = ''unlisted'', allowCopyrightAudio = False,
       preset = ''news'', webhookUrl = [], runContext = [], extraInstructions = [] \<rparr>"
  by (simp add: env_object_def demo_env_def or_else_def coerceNumber_def numeric_input_def
      isFinite_def gt0_def)

lemma hidden_env_object:
  "visibility (env_object demo_toNumber hidden_env) = ''hidden''"
  by (simp add: env_object_def hidden_env_def or_else_def)

lemma hidden_body_coerced:
  "coerceBody demo_toNumber hidden_body =
     \<lparr> openaiKey = Some ''sk-1'', elevenLabsKey = Some ''el-1'', pexelsKey = Some ''px-1'',
       youtubeClientId = Some ''id-1'', youtubeClientSecret = Some ''sec-1'',
       youtubeRefreshToken = Some ''ref-1'', voiceId = ''21m00Tcm4TlvDq8ikWAM'',
       videoTopic = ''Daily AI news round-up'', targetDurationSeconds = Fin 120,
       uploadTitleTemplate = ''Daily AI Highlights - {{date}}'',
       uploadDescriptionTemplate = ''Automated AI news for {{date}}.'',
       uploadTags = [], visibility = ''unlisted'', allowCopyrightAudio = False,
       preset = ''news'', webhookUrl = [], runContext = [], extraInstructions = [] \<rparr>"
  by (simp add: coerce_defs hidden_body_def trim_plain ws_edge)

lemma schema_rejects_visibility:
  "visibility r \<notin> set visibilities \<Longrightarrow> isl (pipelineRequestSchema r)"
  by (simp add: pipelineRequestSchema_def schema_issues_def visibility_issues_def
      split: list.splits)

lemma lines_env_tags:
  "uploadTags (env_object demo_toNumber lines_env) = [JStr [CHR ''a'', CHR 0x0A, CHR ''b'']]"
  by (simp add: env_object_def lines_env_def trim_plain ws_edge)

lemma lines_body_tags:
  "uploadTags (coerceBody demo_toNumber lines_body) = [JStr ''a'', JStr ''b'']"
  by (simp add: coerceBody_def get_prop_def lines_body_def is_delim_def trim_plain ws_edge)

text \<open>
  Claim C7 as stated fails. With the same six credentials and nothing else, the
  environment path gives the topic \<^verbatim>\<open>"Daily AI news recap"\<close> and the request path
  \<^verbatim>\<open>"Daily AI news round-up"\<close>. With the visibility \<^verbatim>\<open>"hidden"\<close> the
  environment is rejected by the schema while the request is accepted as unlisted. A tag
  list with a newline is one tag from the environment and two tags from the request.
\<close>

theorem paths_diverge_counterexample:
  "same_raw demo_env demo_body \<and>
   cfg_videoTopic (projr (deriveFromEnv pipelineRequestSchema demo_toNumber demo_env)) =
     ''Daily AI news recap'' \<and>
   cfg_videoTopic (projr (pipelineRequestSchema (coerceBody demo_toNumber demo_body))) =
     ''Daily AI news round-up'' \<and>
   same_raw hidden_env hidden_body \<and>
   isl (deriveFromEnv pipelineRequestSchema demo_toNumber hidden_env) \<and>
   \<not> isl (pipelineRequestSchema (coerceBody demo_toNumber hidden_body)) \<and>
   same_raw lines_env lines_body \<and>
   uploadTags (env_object demo_toNumber lines_env) = [JStr [CHR ''a'', CHR 0x0A, CHR ''b'']] \<and>
   uploadTags (coerceBody demo_toNumber lines_body) = [JStr ''a'', JStr ''b'']"
proof -
  have 1: "same_raw demo_env demo_body"
    by (simp add: same_raw_def env_keys_def demo_env_def demo_body_def get_prop_def)
  have 2: "cfg_videoTopic (projr (deriveFromEnv pipelineRequestSchema demo_toNumber demo_env)) =
     ''Daily AI news recap''"
    by (simp add: deriveFromEnv_def demo_env_object pipelineRequestSchema_def schema_defs)
  have 3: "cfg_videoTopic (projr (pipelineRequestSchema (coerceBody demo_toNumber demo_body))) =
     ''Daily AI news round-up''"
    by (simp add: demo_body_coerced pipelineRequestSchema_def schema_defs)
  have 4: "same_raw hidden_env hidden_body"
    by (simp add: same_raw_def env_keys_def hidden_env_def demo_env_def hidden_body_def
        get_prop_def)
  have 5: "isl (deriveFromEnv pipelineRequestSchema demo_toNumber hidden_env)"
    unfolding deriveFromEnv_def
    by (rule schema_rejects_visibility) (simp add: hidden_env_object visibilities_def)
  have 6: "\<not> isl (pipelineRequestSchema (coerceBody demo_toNumber hidden_body))"
    by (simp add: hidden_body_coerced pipelineRequestSchema_def schema_defs)
  have 7: "same_raw lines_env lines_body"
    by (simp add: same_raw_def env_keys_def lines_env_def demo_env_def lines_body_def
        get_prop_def)
  show ?thesis using 1 2 3 4 5 6 7 lines_env_tags lines_body_tags
    by (intro conjI) (simp_all only: simp_thms)
qed

text \<open>
  Claim C7, amended. Both paths hand their object to the same schema. When the body
  carries the strings of the environment, and the environment is aligned (every set
  credential, voice, topic and template is non-empty; no set text value has white space
  around it; topic and both templates are set; visibility and preset, when set, are of
  their enumerations; the copyright flag is unset or \<^verbatim>\<open>"true"\<close>; the tag list has no
  newline and no entry that is empty after trimming), the two paths give the same result
  of validation.
\<close>

theorem paths_agree_on_aligned_input:
  assumes "aligned env" and "same_raw env body"
  shows "schema (coerceBody toNumber body) = deriveFromEnv schema toNumber env"
  unfolding deriveFromEnv_def path_objects_agree[OF assms] by (rule refl)

lemma trim_padded_tag: "trim '' tech'' = ''tech''"
proof -
  have 1: "strip white_space '' tech'' = ''tech''"
    by (subst strip_some[where w = "'' ''"])
      (simp_all add: leading_def white_space_def strip_none leading_none_hd)
  have 2: "strip (map rev white_space) (rev ''tech'') = rev ''tech''"
    by (rule strip_none, rule leading_none_hd)
      (simp_all add: white_space_def)
  show ?thesis by (simp only: trim_def 1 2 rev_rev_ident)
qed

theorem paths_agree_on_aligned_input_witness:
  "aligned full_env \<and> same_raw full_env full_body \<and>
   pipelineRequestSchema (coerceBody demo_toNumber full_body) =
     deriveFromEnv pipelineRequestSchema demo_toNumber full_env \<and>
   \<not> isl (deriveFromEnv pipelineRequestSchema demo_toNumber full_env) \<and>
   cfg_uploadTags (projr (deriveFromEnv pipelineRequestSchema demo_toNumber full_env)) =
     [''ai'', ''tech'']"
proof -
  have a: "aligned full_env"
    by (simp add: aligned_def full_env_def plain_def plain_nonempty_def trim_plain
        trim_padded_tag ws_edge visibilities_def presets_def)
  have s: "same_raw full_env full_body"
    by (simp add: same_raw_def env_keys_def full_env_def full_body_def get_prop_def)
  have o: "env_object demo_toNumber full_env =
     \<lparr> openaiKey = Some ''sk-1'', elevenLabsKey = Some ''el-1'', pexelsKey = Some ''px-1'',
       youtubeClientId = Some ''id-1'', youtubeClientSecret = Some ''sec-1'',
       youtubeRefreshToken = Some ''ref-1'', voiceId = ''21m00Tcm4TlvDq8ikWAM'',
       videoTopic = ''Space news'', targetDurationSeconds = Fin 90,
       uploadTitleTemplate = ''Daily Briefing - {{date}}'',
       uploadDescriptionTemplate = ''Summary for {{date}}.'',
       uploadTags = [JStr ''ai'', JStr ''tech''], visibility = ''public'',
       allowCopyrightAudio = True, preset = ''facts'', webhookUrl = [], runContext = [],
       extraInstructions = [] \<rparr>"
    by (simp add: env_object_def full_env_def or_else_def coerceNumber_def numeric_input_def
        demo_toNumber_def isFinite_def gt0_def trim_plain trim_padded_tag ws_edge)
  have r: "\<not> isl (deriveFromEnv pipelineRequestSchema demo_toNumber full_env)"
    by (simp add: deriveFromEnv_def o pipelineRequestSchema_def schema_defs is_string_def)
  have t: "cfg_uploadTags (projr (deriveFromEnv pipelineRequestSchema demo_toNumber full_env)) =
     [''ai'', ''tech'']"
    by (simp add: deriveFromEnv_def o pipelineRequestSchema_def schema_defs is_string_def
        string_of_def)
  show ?thesis
    using a s r t
      paths_agree_on_aligned_input[where schema = pipelineRequestSchema
        and toNumber = demo_toNumber, OF a s]
    by (intro conjI) (simp_all only: simp_thms)
qed

end
